theory Spec2Isabelle
  imports Main "HOL-Library.Word" "HOL-Library.Signed_Division"
begin

section \<open>The one-sided MPI transport layer of Libcaf (src/mpi/mpi_caf.c)\<close>

text \<open>
  The development embeds the build of \<^verbatim>\<open>mpi_caf.c\<close> that the preprocessor selects
  with \<^verbatim>\<open>GCC_GE_7\<close> defined, \<^verbatim>\<open>MPI_VERSION >= 3\<close>, and none of
  \<^verbatim>\<open>WITH_FAILED_IMAGES\<close>, \<^verbatim>\<open>CAF_MPI_LOCK_UNLOCK\<close>, \<^verbatim>\<open>NONBLOCKING_PUT\<close>,
  \<^verbatim>\<open>STRIDED\<close>, \<^verbatim>\<open>HELPER\<close>, \<^verbatim>\<open>GFC_CAF_CHECK\<close>, \<^verbatim>\<open>EXTRA_DEBUG_OUTPUT\<close>.
  In that build \<^verbatim>\<open>CAF_Win_lock\<close> expands to nothing, \<^verbatim>\<open>CAF_Win_unlock\<close> is
  \<^verbatim>\<open>MPI_Win_flush\<close>, \<^verbatim>\<open>check_image_health\<close> expands to nothing and \<^verbatim>\<open>dprint\<close> prints nothing.

  One image (process) is modelled: its own address space, the windows of the other images as
  the transport presents them, and the sequence of transport calls it issues.  Output to
  \<^verbatim>\<open>stderr\<close> and \<^verbatim>\<open>stdout\<close> is not part of the model.  Signed C arithmetic, whose overflow
  is undefined, is computed on \<^typ>\<open>int\<close>; \<^verbatim>\<open>size_t\<close> arithmetic wraps at \<open>2 ^ 64\<close> and is
  written out.
\<close>

subsection \<open>Bytes and memory\<close>

type_synonym byte = "8 word"
type_synonym addr = nat

primrec load_bytes :: "(nat \<Rightarrow> byte) \<Rightarrow> nat \<Rightarrow> nat \<Rightarrow> byte list" where
  "load_bytes m a 0 = []"
| "load_bytes m a (Suc n) = m a # load_bytes m (Suc a) n"

primrec store_bytes :: "(nat \<Rightarrow> byte) \<Rightarrow> nat \<Rightarrow> byte list \<Rightarrow> (nat \<Rightarrow> byte)" where
  "store_bytes m a [] = m"
| "store_bytes m a (b # bs) = store_bytes (m(a := b)) (Suc a) bs"

text \<open>\<^verbatim>\<open>memmove (dst, src, n)\<close>: the source bytes are read before any byte is written.\<close>

definition memmove :: "(nat \<Rightarrow> byte) \<Rightarrow> addr \<Rightarrow> addr \<Rightarrow> nat \<Rightarrow> (nat \<Rightarrow> byte)" where
  "memmove m dst src n = store_bytes m dst (load_bytes m src n)"

definition memset :: "(nat \<Rightarrow> byte) \<Rightarrow> addr \<Rightarrow> byte \<Rightarrow> nat \<Rightarrow> (nat \<Rightarrow> byte)" where
  "memset m dst c n = store_bytes m dst (replicate n c)"

text \<open>Conversions between \<^verbatim>\<open>size_t\<close> (64 bits), \<^verbatim>\<open>ptrdiff_t\<close> and \<^verbatim>\<open>int\<close> (32 bits).\<close>

definition size_t_of :: "int \<Rightarrow> nat" where
  "size_t_of x = nat (x mod 2 ^ 64)"

definition ptrdiff_t_of :: "nat \<Rightarrow> int" where
  "ptrdiff_t_of n = (let m = int (n mod 2 ^ 64) in if m < 2 ^ 63 then m else m - 2 ^ 64)"

definition int_of_size_t :: "nat \<Rightarrow> int" where
  "int_of_size_t n = (let m = int (n mod 2 ^ 32) in if m < 2 ^ 31 then m else m - 2 ^ 32)"

text \<open>An \<^verbatim>\<open>int\<close> in memory: four bytes, least significant first.\<close>

definition int_bytes :: "int \<Rightarrow> byte list" where
  "int_bytes v = (let w = (word_of_int v :: 32 word) in
     [ucast w, ucast (drop_bit 8 w), ucast (drop_bit 16 w), ucast (drop_bit 24 w)])"

definition bytes_int :: "byte list \<Rightarrow> int" where
  "bytes_int bs = sint (foldr (\<lambda>b w. push_bit 8 w + ucast b) bs (0 :: 32 word))"

subsection \<open>Descriptors and tokens\<close>

text \<open>
  Modelled from the spec: the array descriptor of \<^verbatim>\<open>libcaf-gfortran-descriptor.h\<close>, which is
  not among the sources.  Following the data model of the specification a descriptor is the
  record of a base address, the element type, the element size in bytes and one triple of
  lower bound, upper bound and stride for each dimension; the rank is the number of triples.
  \<^verbatim>\<open>GFC_DESCRIPTOR_RANK\<close>, \<^verbatim>\<open>GFC_DESCRIPTOR_TYPE\<close> and \<^verbatim>\<open>GFC_DESCRIPTOR_SIZE\<close> read these
  fields.  A base address of \<open>0\<close> is the null pointer.
\<close>

datatype bt = BT_INTEGER | BT_LOGICAL | BT_REAL | BT_COMPLEX | BT_DERIVED | BT_CHARACTER

record descriptor_dimension =
  dim_stride :: int
  lower_bound :: int
  dim_ubound :: int

record gfc_descriptor_t =
  base_addr :: addr
  desc_type :: bt
  desc_size :: nat
  dim :: "descriptor_dimension list"

definition GFC_DESCRIPTOR_RANK :: "gfc_descriptor_t \<Rightarrow> int" where
  "GFC_DESCRIPTOR_RANK d = int (length (dim d))"

definition GFC_DESCRIPTOR_TYPE :: "gfc_descriptor_t \<Rightarrow> bt" where
  "GFC_DESCRIPTOR_TYPE d = desc_type d"

definition GFC_DESCRIPTOR_SIZE :: "gfc_descriptor_t \<Rightarrow> nat" where
  "GFC_DESCRIPTOR_SIZE d = desc_size d"

definition dim_at :: "gfc_descriptor_t \<Rightarrow> int \<Rightarrow> descriptor_dimension option" where
  "dim_at d j = (if 0 \<le> j \<and> j < int (length (dim d)) then Some (dim d ! nat j) else None)"

text \<open>
  A token owns the local memory of a coarray and names its window; a slave token belongs to an
  allocatable component and lives in the global dynamic window.  The descriptor a token
  points to is kept by its address.
\<close>

record mpi_caf_token_t =
  memptr :: addr
  memptr_win :: nat
  desc :: "addr option"

record mpi_caf_slave_token_t =
  slave_memptr :: addr
  slave_desc :: "addr option"

subsection \<open>Constants of libcaf.h\<close>

text \<open>
  The header \<^verbatim>\<open>libcaf.h\<close> is not among the sources.  The status codes it defines and the
  predicate \<^verbatim>\<open>is_contiguous\<close> it declares are taken as parameters of every function that
  uses them.
\<close>

record libcaf_h =
  STAT_DUP_SYNC_IMAGES :: int
  STAT_STOPPED_IMAGE :: int
  STAT_FAILED_IMAGE :: int
  is_contiguous :: "gfc_descriptor_t \<Rightarrow> bool"

definition MPI_TAG_CAF_SYNC_IMAGES :: int where
  "MPI_TAG_CAF_SYNC_IMAGES = 424242"

definition EXIT_FAILURE :: int where
  "EXIT_FAILURE = 1"

subsection \<open>The transport\<close>

datatype mpi_op = MPI_SUM | MPI_BAND | MPI_BOR | MPI_BXOR | MPI_REPLACE | MPI_NO_OP

datatype mpi_datatype = MPI_INT | MPI_DOUBLE | MPI_COMPLEX | MPI_DOUBLE_COMPLEX

text \<open>
  The calls the runtime issues, with the arguments that matter here.  Byte counts are the C
  \<^verbatim>\<open>int\<close> the transport receives; ranks are image indices minus one; a window is named by
  its handle.
\<close>

datatype mpi_call =
    Put int int int int nat
  | Get int int int int nat
  | Win_flush int nat
  | Compare_and_swap int int nat
  | Fetch_and_op mpi_op mpi_datatype int int nat
  | Send int int int
  | Irecv int int
  | Waitany
  | Barrier
  | Abort int
  | Win_unlock_all nat
  | Win_lock_all nat
  | Win_allocate nat nat
  | Win_attach addr nat
  | Win_detach addr
  | Win_free nat
  | Info_free
  | Comm_free
  | Finalize


record caf_state =
  caf_this_image :: int
  caf_num_images :: int
  caf_is_finalized :: bool
  caf_owns_mpi :: bool
  img_status :: int
  images_full :: "int list"
  arrived :: "int \<Rightarrow> int"
  global_dynamic_win :: nat
  stat_tok :: nat
  next_win :: nat
  token_store :: "addr \<Rightarrow> mpi_caf_token_t"
  slave_token_store :: "addr \<Rightarrow> mpi_caf_slave_token_t"
  caf_allocated_tokens :: "addr list"
  caf_allocated_slave_tokens :: "(addr \<times> addr) list"
  heap :: "addr \<Rightarrow> byte"
  brk :: addr
  win_base :: "nat \<Rightarrow> addr"
  win_mem :: "nat \<Rightarrow> int \<Rightarrow> nat \<Rightarrow> byte"
  mpi_initialized :: bool
  comm_size :: int
  comm_rank :: int
  mpi_reduce :: "mpi_op \<Rightarrow> mpi_datatype \<Rightarrow> byte list \<Rightarrow> byte list \<Rightarrow> byte list"
  mpi_rc :: "mpi_call \<Rightarrow> int"
  mpi_log :: "mpi_call list"

text \<open>
  \<^const>\<open>heap\<close> is the address space of this image and \<^const>\<open>brk\<close> the first address no object
  occupies: \<^verbatim>\<open>malloc\<close>, \<^verbatim>\<open>calloc\<close> and \<^verbatim>\<open>alloca\<close> hand out fresh blocks from there
  (\<^verbatim>\<open>free\<close> does not change any byte).  The window \<open>w\<close> exposes, on this image, the bytes from
  \<^term>\<open>win_base s w\<close> on; on the image of rank \<open>r\<close> it exposes \<^term>\<open>win_mem s w r\<close>.
  \<^const>\<open>arrived\<close> is the array of that name, indexed by rank.
  The transport is described by what it answers: \<^const>\<open>mpi_initialized\<close>, \<^const>\<open>comm_size\<close>
  and \<^const>\<open>comm_rank\<close> are the answers of \<^verbatim>\<open>MPI_Initialized\<close>, \<^verbatim>\<open>MPI_Comm_size\<close> and
  \<^verbatim>\<open>MPI_Comm_rank\<close>, \<^const>\<open>mpi_reduce\<close> is the result of a reduction operator on two values of
  a datatype, \<^const>\<open>mpi_rc\<close> is the return code of each call and \<^const>\<open>mpi_log\<close> the calls
  issued so far, oldest first.  A call that returns nonzero moves no data.
\<close>

definition issue :: "mpi_call \<Rightarrow> caf_state \<Rightarrow> caf_state" where
  "issue c s = s\<lparr>mpi_log := mpi_log s @ [c]\<rparr>"

definition malloc :: "nat \<Rightarrow> caf_state \<Rightarrow> addr \<times> caf_state" where
  "malloc n s = (brk s, s\<lparr>brk := brk s + n\<rparr>)"

definition calloc :: "nat \<Rightarrow> caf_state \<Rightarrow> addr \<times> caf_state" where
  "calloc n s = (brk s, s\<lparr>brk := brk s + n, heap := memset (heap s) (brk s) 0 n\<rparr>)"

definition win_load :: "caf_state \<Rightarrow> nat \<Rightarrow> int \<Rightarrow> nat \<Rightarrow> nat \<Rightarrow> byte list" where
  "win_load s w r d n =
     (if r = caf_this_image s - 1 then load_bytes (heap s) (win_base s w + d) n
      else load_bytes (win_mem s w r) d n)"

definition win_store :: "caf_state \<Rightarrow> nat \<Rightarrow> int \<Rightarrow> nat \<Rightarrow> byte list \<Rightarrow> caf_state" where
  "win_store s w r d bs =
     (if r = caf_this_image s - 1 then s\<lparr>heap := store_bytes (heap s) (win_base s w + d) bs\<rparr>
      else s\<lparr>win_mem := (win_mem s)(w := (win_mem s w)(r := store_bytes (win_mem s w r) d bs))\<rparr>)"

text \<open>
  \<^verbatim>\<open>MPI_Put (origin, ocount, MPI_BYTE, rank, disp, tcount, MPI_BYTE, win)\<close> and
  \<^verbatim>\<open>MPI_Get\<close> with the same argument order.  The number of bytes moved is the smaller of the
  two counts; a negative count or displacement moves nothing.
\<close>

definition MPI_Put :: "addr \<Rightarrow> int \<Rightarrow> int \<Rightarrow> int \<Rightarrow> int \<Rightarrow> nat \<Rightarrow> caf_state \<Rightarrow> int \<times> caf_state" where
  "MPI_Put origin ocount rank disp tcount w s =
     (let c = Put ocount rank disp tcount w;
          rc = mpi_rc s c;
          n = nat (min ocount tcount);
          s1 = (if rc = 0 \<and> 0 \<le> disp then win_store s w rank (nat disp) (load_bytes (heap s) origin n)
                else s)
      in (rc, issue c s1))"

definition MPI_Get :: "addr \<Rightarrow> int \<Rightarrow> int \<Rightarrow> int \<Rightarrow> int \<Rightarrow> nat \<Rightarrow> caf_state \<Rightarrow> int \<times> caf_state" where
  "MPI_Get origin ocount rank disp tcount w s =
     (let c = Get ocount rank disp tcount w;
          rc = mpi_rc s c;
          n = nat (min ocount tcount);
          s1 = (if rc = 0 \<and> 0 \<le> disp
                then s\<lparr>heap := store_bytes (heap s) origin (win_load s w rank (nat disp) n)\<rparr>
                else s)
      in (rc, issue c s1))"

definition MPI_Win_flush :: "int \<Rightarrow> nat \<Rightarrow> caf_state \<Rightarrow> caf_state" where
  "MPI_Win_flush rank w s = issue (Win_flush rank w) s"

subsection \<open>How a call ends\<close>

datatype 'a outcome =
    Returned 'a caf_state
  | Exited int caf_state
  | Crashed
  | Waits caf_state

text \<open>
  \<^const>\<open>Returned\<close> carries the values written through the output pointers, \<^const>\<open>Exited\<close> the
  argument of \<^verbatim>\<open>exit\<close>, \<^const>\<open>Crashed\<close> stands for a read outside an array or a division
  by zero, and \<^const>\<open>Waits\<close> for a loop that the other images never release.
\<close>

subsection \<open>Termination: finalize_internal, terminate_internal, stop\<close>

text \<open>
  The two registries are linked lists in the source, newest entry first; an entry of the slave
  registry is the pair of the address of the list node and the address of the token.
\<close>

fun free_slave_tokens :: "(addr \<times> addr) list \<Rightarrow> caf_state \<Rightarrow> caf_state" where
  "free_slave_tokens [] s = s"
| "free_slave_tokens ((cur_stok, tok) # prev) s =
     free_slave_tokens prev
       (let s1 = issue (Win_detach cur_stok) s
        in if slave_memptr (slave_token_store s tok) \<noteq> 0
           then issue (Win_detach (slave_memptr (slave_token_store s tok))) s1 else s1)"

fun free_tokens :: "addr list \<Rightarrow> caf_state \<Rightarrow> caf_state" where
  "free_tokens [] s = s"
| "free_tokens (cur_tok # prev) s =
     free_tokens prev
       (let p = memptr_win (token_store s cur_tok)
        in issue (Win_free p) (issue (Win_unlock_all p) s))"

definition announce_status :: "caf_state \<Rightarrow> caf_state" where
  "announce_status s =
     foldl (\<lambda>t img. issue (Send (img_status t) (img - 1) MPI_TAG_CAF_SYNC_IMAGES) t) s
       (take (nat (caf_num_images s - 1)) (images_full s))"

definition finalize_internal :: "libcaf_h \<Rightarrow> int \<Rightarrow> caf_state \<Rightarrow> caf_state" where
  "finalize_internal K status_code s =
     (let s1 = (if status_code = 0 then s\<lparr>img_status := STAT_STOPPED_IMAGE K\<rparr>
                else s\<lparr>img_status := status_code\<rparr>);
          s2 = MPI_Win_flush (caf_this_image s1 - 1) (stat_tok s1) s1;
          s3 = announce_status s2
      in if status_code = 0 then
           (let s4 = issue Barrier s3;
                s5 = issue (Win_unlock_all (global_dynamic_win s4)) s4;
                s6 = free_slave_tokens (caf_allocated_slave_tokens s5) s5;
                s7 = free_tokens (caf_allocated_tokens s6) s6;
                s8 = issue (Win_free (global_dynamic_win s7)) (issue Info_free s7);
                s9 = issue (Win_free (stat_tok s8))
                       (issue (Win_unlock_all (stat_tok s8)) (issue Comm_free s8));
                s10 = (if caf_owns_mpi s9 then issue Finalize s9 else s9)
            in s10\<lparr>caf_is_finalized := True\<rparr>)
         else s3)"

definition terminate_internal :: "libcaf_h \<Rightarrow> int \<Rightarrow> int \<Rightarrow> caf_state \<Rightarrow> 'a outcome" where
  "terminate_internal K stat_code exit_code s =
     Exited exit_code (issue (Abort exit_code) (finalize_internal K stat_code s))"

definition caf_runtime_error :: "caf_state \<Rightarrow> 'a outcome" where
  "caf_runtime_error s = Exited EXIT_FAILURE s"

definition stop_numeric :: "libcaf_h \<Rightarrow> int \<Rightarrow> caf_state \<Rightarrow> unit outcome" where
  "stop_numeric K stop_code s = terminate_internal K (STAT_STOPPED_IMAGE K) stop_code s"

text \<open>
  \<^verbatim>\<open>stop_str\<close> prints \<open>len\<close> characters of its argument before it terminates; a length the
  string does not have makes the loop read outside it.
\<close>

definition stop_str :: "libcaf_h \<Rightarrow> string \<Rightarrow> int \<Rightarrow> caf_state \<Rightarrow> unit outcome" where
  "stop_str K string len s =
     (if len < 0 \<or> int (length string) < len then Crashed
      else terminate_internal K (STAT_STOPPED_IMAGE K) 0 s)"

subsection \<open>The transfer engine: send, get, sendget\<close>

fun and_then :: "'a outcome \<Rightarrow> ('a \<Rightarrow> caf_state \<Rightarrow> 'b outcome) \<Rightarrow> 'b outcome" where
  "and_then (Returned a s) f = f a s"
| "and_then (Exited c s) f = Exited c s"
| "and_then Crashed f = Crashed"
| "and_then (Waits s) f = Waits s"

text \<open>A \<^verbatim>\<open>for\<close> loop over the given indices, left as soon as the body does not return.\<close>

primrec iterate :: "(nat \<Rightarrow> caf_state \<Rightarrow> unit outcome) \<Rightarrow> nat list \<Rightarrow> caf_state \<Rightarrow> unit outcome" where
  "iterate body [] s = Returned () s"
| "iterate body (i # is) s = and_then (body i s) (\<lambda>_. iterate body is)"

definition ptr_plus :: "addr \<Rightarrow> int \<Rightarrow> addr" where
  "ptr_plus a k = size_t_of (int a + k)"

definition alloca :: "nat \<Rightarrow> caf_state \<Rightarrow> addr \<times> caf_state" where
  "alloca n s = (brk s, s\<lparr>brk := brk s + n\<rparr>)"

text \<open>
  The element count of a transfer:
  \<^verbatim>\<open>size = 1; for (j = 0; j < rank; j++) { dimextent = ub - lb + 1;
  if (dimextent < 0) dimextent = 0; size *= dimextent; }\<close>
\<close>

definition dimextent :: "descriptor_dimension \<Rightarrow> int" where
  "dimextent d = (let e = dim_ubound d - lower_bound d + 1 in if e < 0 then 0 else e)"

fun count_elements :: "nat \<Rightarrow> descriptor_dimension list \<Rightarrow> nat" where
  "count_elements sz [] = sz"
| "count_elements sz (d # ds) =
     count_elements ((sz * size_t_of (dimextent d)) mod 2 ^ 64) ds"

text \<open>
  The scratch pad of blanks: \<^verbatim>\<open>alloca\<close> gives a block whose bytes are whatever the stack
  holds; for kind 1 \<^verbatim>\<open>memset\<close> fills all of it, for any other kind the loop stores
  \<open>(dst_size - src_size) / 4\<close> 32-bit blanks.
\<close>

definition make_pad_str :: "bt \<Rightarrow> int \<Rightarrow> nat \<Rightarrow> nat \<Rightarrow> caf_state \<Rightarrow> addr option \<times> caf_state" where
  "make_pad_str dst_type dst_kind dst_size src_size s =
     (if dst_type = BT_CHARACTER \<and> dst_size > src_size then
        (let (pad_str, s1) = alloca (dst_size - src_size) s
         in (Some pad_str,
             if dst_kind = 1
             then s1\<lparr>heap := memset (heap s1) pad_str 0x20 (dst_size - src_size)\<rparr>
             else s1\<lparr>heap := store_bytes (heap s1) pad_str
                        (concat (replicate ((dst_size - src_size) div 4) (int_bytes 0x20)))\<rparr>))
      else (None, s))"

text \<open>
  The unravelling of the linear index \<open>i\<close>.  The loop over \<open>j < rank - 1\<close>:
  \<^verbatim>\<open>array_offset += ((i / tot_ext) % (ub - lb + 1)) * stride; tot_ext *= ub - lb + 1;\<close>
  followed by \<^verbatim>\<open>array_offset += (i / tot_ext) * dim[rank-1]._stride\<close>.  The index \<open>i\<close> is a
  \<^verbatim>\<open>size_t\<close>, so quotient, remainder and product are unsigned; a zero divisor traps.
\<close>

fun offset_loop :: "nat \<Rightarrow> descriptor_dimension list \<Rightarrow> int \<Rightarrow> int \<Rightarrow> (int \<times> int) option" where
  "offset_loop i [] array_offset tot_ext = Some (array_offset, tot_ext)"
| "offset_loop i (d # ds) array_offset tot_ext =
     (let extent = dim_ubound d - lower_bound d + 1
      in if size_t_of tot_ext = 0 \<or> size_t_of extent = 0 then None
         else offset_loop i ds
                (ptrdiff_t_of (size_t_of array_offset
                   + ((i div size_t_of tot_ext) mod size_t_of extent) * size_t_of (dim_stride d)))
                (tot_ext * extent))"

definition elem_offset :: "nat \<Rightarrow> descriptor_dimension list \<Rightarrow> descriptor_dimension option \<Rightarrow> int option" where
  "elem_offset i ds last_dim =
     (case offset_loop i ds 0 1 of
        None \<Rightarrow> None
      | Some (array_offset, tot_ext) \<Rightarrow>
          (case last_dim of
             None \<Rightarrow> None
           | Some l \<Rightarrow>
               if size_t_of tot_ext = 0 then None
               else Some (ptrdiff_t_of (size_t_of array_offset
                            + (i div size_t_of tot_ext) * size_t_of (dim_stride l)))))"

text \<open>One iteration of the element-wise loop of \<^verbatim>\<open>send\<close>.\<close>

definition send_element ::
  "nat \<Rightarrow> nat \<Rightarrow> int \<Rightarrow> gfc_descriptor_t \<Rightarrow> gfc_descriptor_t \<Rightarrow> bool \<Rightarrow> addr option \<Rightarrow> addr \<Rightarrow> addr
     \<Rightarrow> nat \<Rightarrow> caf_state \<Rightarrow> unit outcome" where
  "send_element p offset image_index dest src mrt pad_str t_buff buff_map i s =
     (let rank = GFC_DESCRIPTOR_RANK dest;
          src_size = GFC_DESCRIPTOR_SIZE src;
          dst_size = GFC_DESCRIPTOR_SIZE dest
      in case elem_offset i (take (nat (rank - 1)) (dim dest)) (dim_at dest (rank - 1)) of
           None \<Rightarrow> Crashed
         | Some array_offset_dst \<Rightarrow>
            (let dst_offset = ptrdiff_t_of (offset + size_t_of (array_offset_dst * int dst_size))
             in case (if GFC_DESCRIPTOR_RANK src \<noteq> 0
                      then map_option (\<lambda>array_offset_sr. ptr_plus (base_addr src) (array_offset_sr * int src_size))
                             (elem_offset i (take (nat (GFC_DESCRIPTOR_RANK src - 1)) (dim src))
                                (dim_at src (rank - 1)))
                      else Some (base_addr src)) of
                  None \<Rightarrow> Crashed
                | Some sr \<Rightarrow>
                    if caf_this_image s = image_index then
                      (if \<not> mrt
                       then Returned () (s\<lparr>heap := memmove (heap s) (ptr_plus (base_addr dest) dst_offset) sr src_size\<rparr>)
                       else Returned () (s\<lparr>heap := store_bytes
                              (memmove (heap s) (ptr_plus t_buff (int (i * src_size))) sr src_size)
                              (ptr_plus buff_map (int i)) [1]\<rparr>))
                    else
                      (let (ierr, s1) = MPI_Put sr (int_of_size_t dst_size) (image_index - 1) dst_offset
                                          (int_of_size_t dst_size) p s;
                           (ierr, s2) = (case pad_str of
                                           None \<Rightarrow> (ierr, s1)
                                         | Some pad \<Rightarrow>
                                             MPI_Put pad (int_of_size_t (dst_size - src_size)) (image_index - 1)
                                               dst_offset (int_of_size_t (dst_size - src_size)) p s1)
                       in if ierr \<noteq> 0 then caf_runtime_error s2 else Returned () s2)))"

text \<open>
  The second loop of \<^verbatim>\<open>send\<close>, run when the target is this image and a temporary was asked
  for: every buffered element is moved to \<^verbatim>\<open>src->base_addr + dst_offset\<close>.
\<close>

definition send_copy_back ::
  "nat \<Rightarrow> gfc_descriptor_t \<Rightarrow> gfc_descriptor_t \<Rightarrow> addr \<Rightarrow> addr \<Rightarrow> nat \<Rightarrow> caf_state \<Rightarrow> unit outcome" where
  "send_copy_back offset dest src t_buff buff_map i s =
     (if heap s (ptr_plus buff_map (int i)) \<noteq> 0 then
        (let rank = GFC_DESCRIPTOR_RANK dest;
             src_size = GFC_DESCRIPTOR_SIZE src
         in case elem_offset i (take (nat (rank - 1)) (dim dest)) (dim_at dest (rank - 1)) of
              None \<Rightarrow> Crashed
            | Some array_offset_dst \<Rightarrow>
               (let dst_offset = ptrdiff_t_of
                      (offset + size_t_of (array_offset_dst * int (GFC_DESCRIPTOR_SIZE dest)))
                in Returned () (s\<lparr>heap := memmove (heap s) (ptr_plus (base_addr src) dst_offset)
                                     (ptr_plus t_buff (int (i * src_size))) src_size\<rparr>)))
      else Returned () s)"

definition send ::
  "libcaf_h \<Rightarrow> addr \<Rightarrow> nat \<Rightarrow> int \<Rightarrow> gfc_descriptor_t \<Rightarrow> gfc_descriptor_t \<Rightarrow> int \<Rightarrow> int \<Rightarrow> bool
     \<Rightarrow> int option \<Rightarrow> caf_state \<Rightarrow> int option outcome" where
  "send K token offset image_index dest src dst_kind src_kind mrt stat s =
     (let rank = GFC_DESCRIPTOR_RANK dest;
          p = memptr_win (token_store s token);
          src_size = GFC_DESCRIPTOR_SIZE src;
          dst_size = GFC_DESCRIPTOR_SIZE dest;
          sz = count_elements 1 (dim dest)
      in if sz = 0 then Returned stat s
         else
          (let (pad_str, s1) = make_pad_str (GFC_DESCRIPTOR_TYPE dest) dst_kind dst_size src_size s
           in if rank = 0
                 \<or> (GFC_DESCRIPTOR_TYPE dest = GFC_DESCRIPTOR_TYPE src
                    \<and> dst_kind = src_kind \<and> GFC_DESCRIPTOR_RANK src \<noteq> 0
                    \<and> (GFC_DESCRIPTOR_TYPE dest \<noteq> BT_CHARACTER \<or> dst_size = src_size)
                    \<and> is_contiguous K dest \<and> is_contiguous K src)
              then
                (if caf_this_image s1 = image_index
                 then Returned stat
                        (s1\<lparr>heap := memmove (heap s1) (base_addr dest) (base_addr src)
                                      ((sz * dst_size) mod 2 ^ 64)\<rparr>)
                 else
                   (let n = ((if dst_size > src_size then src_size else dst_size) * sz) mod 2 ^ 64;
                        (ierr, s2) =
                          (if GFC_DESCRIPTOR_TYPE dest = GFC_DESCRIPTOR_TYPE src \<and> dst_kind = src_kind
                           then MPI_Put (base_addr src) (int_of_size_t n) (image_index - 1)
                                  (ptrdiff_t_of offset) (int_of_size_t n) p s1
                           else (0, s1));
                        (ierr, s3) =
                          (case pad_str of
                             None \<Rightarrow> (ierr, s2)
                           | Some pad \<Rightarrow>
                               (let newoff = (offset + n) mod 2 ^ 64
                                in MPI_Put pad (int_of_size_t (dst_size - src_size)) (image_index - 1)
                                     (ptrdiff_t_of newoff) (int_of_size_t (dst_size - src_size)) p s2));
                        s4 = MPI_Win_flush (image_index - 1) p s3
                    in if ierr \<noteq> 0 then terminate_internal K ierr 0 s4 else Returned stat s4))
              else
                (let self_tmp = (caf_this_image s1 = image_index \<and> mrt);
                     (t_buff, s2) = (if self_tmp then calloc (sz * dst_size) s1 else (0, s1));
                     (buff_map, s3) = (if self_tmp then calloc sz s2 else (0, s2))
                 in and_then
                      (iterate (send_element p offset image_index dest src mrt pad_str t_buff buff_map)
                         [0..<sz] s3)
                      (\<lambda>_ s4. and_then
                         (if self_tmp
                          then iterate (send_copy_back offset dest src t_buff buff_map) [0..<sz] s4
                          else Returned () s4)
                         (\<lambda>_ s5. Returned stat (MPI_Win_flush (image_index - 1) p s5))))))"

text \<open>One iteration of the element-wise loop of \<^verbatim>\<open>get\<close>; \<open>rank\<close> is the rank of the source.\<close>

definition get_element ::
  "libcaf_h \<Rightarrow> nat \<Rightarrow> nat \<Rightarrow> int \<Rightarrow> gfc_descriptor_t \<Rightarrow> gfc_descriptor_t \<Rightarrow> bool \<Rightarrow> addr option \<Rightarrow> addr \<Rightarrow> addr
     \<Rightarrow> nat \<Rightarrow> caf_state \<Rightarrow> unit outcome" where
  "get_element K p offset image_index src dest mrt pad_str t_buff buff_map i s =
     (let rank = GFC_DESCRIPTOR_RANK src;
          src_size = GFC_DESCRIPTOR_SIZE src;
          dst_size = GFC_DESCRIPTOR_SIZE dest
      in case elem_offset i (take (nat (rank - 1)) (dim dest)) (dim_at dest (rank - 1)) of
           None \<Rightarrow> Crashed
         | Some array_offset_dst \<Rightarrow>
            (case elem_offset i (take (nat (rank - 1)) (dim src)) (dim_at src (rank - 1)) of
               None \<Rightarrow> Crashed
             | Some array_offset_sr \<Rightarrow>
                (let sr_off = (offset + size_t_of (array_offset_sr * int src_size)) mod 2 ^ 64;
                     dst = ptr_plus (base_addr dest) (array_offset_dst * int dst_size)
                 in if caf_this_image s = image_index then
                      (if \<not> mrt
                       then Returned () (s\<lparr>heap := memmove (heap s) dst
                                            (ptr_plus (base_addr src) (array_offset_sr * int src_size)) src_size\<rparr>)
                       else Returned () (s\<lparr>heap := store_bytes
                              (memmove (heap s) (ptr_plus t_buff (int (i * dst_size))) dst dst_size)
                              (ptr_plus buff_map (int i)) [1]\<rparr>))
                    else
                      (let (ierr, s1) = MPI_Get dst (int_of_size_t dst_size) (image_index - 1)
                                          (ptrdiff_t_of sr_off) (int_of_size_t src_size) p s;
                           s2 = (case pad_str of
                                   None \<Rightarrow> s1
                                 | Some pad \<Rightarrow>
                                     s1\<lparr>heap := memmove (heap s1) (ptr_plus dst (int src_size)) pad
                                                   (dst_size - src_size)\<rparr>)
                       in if ierr \<noteq> 0 then terminate_internal K ierr 0 s2 else Returned () s2))))"

definition get_copy_back ::
  "nat \<Rightarrow> gfc_descriptor_t \<Rightarrow> gfc_descriptor_t \<Rightarrow> addr \<Rightarrow> addr \<Rightarrow> nat \<Rightarrow> caf_state \<Rightarrow> unit outcome" where
  "get_copy_back offset src dest t_buff buff_map i s =
     (if heap s (ptr_plus buff_map (int i)) \<noteq> 0 then
        (let rank = GFC_DESCRIPTOR_RANK src;
             src_size = GFC_DESCRIPTOR_SIZE src
         in case elem_offset i (take (nat (rank - 1)) (dim src)) (dim_at src (rank - 1)) of
              None \<Rightarrow> Crashed
            | Some array_offset_sr \<Rightarrow>
               (let sr_off = (offset + size_t_of (array_offset_sr * int src_size)) mod 2 ^ 64
                in Returned () (s\<lparr>heap := memmove (heap s) (ptr_plus (base_addr dest) (int sr_off))
                                     (ptr_plus t_buff (int (i * src_size))) src_size\<rparr>)))
      else Returned () s)"

text \<open>
  \<^verbatim>\<open>get (token, offset, image_index, src, src_vector, dest, src_kind, dst_kind, mrt, stat)\<close>.
  The count is taken over \<^verbatim>\<open>dest->dim[j]\<close> for \<open>j\<close> below the rank of \<open>src\<close>; a source of
  higher rank than the destination reads outside the destination's bounds.
\<close>

definition get ::
  "libcaf_h \<Rightarrow> addr \<Rightarrow> nat \<Rightarrow> int \<Rightarrow> gfc_descriptor_t \<Rightarrow> gfc_descriptor_t \<Rightarrow> int \<Rightarrow> int \<Rightarrow> bool
     \<Rightarrow> int option \<Rightarrow> caf_state \<Rightarrow> int option outcome" where
  "get K token offset image_index src dest src_kind dst_kind mrt stat s =
     (let p = memptr_win (token_store s token);
          rank = GFC_DESCRIPTOR_RANK src;
          src_size = GFC_DESCRIPTOR_SIZE src;
          dst_size = GFC_DESCRIPTOR_SIZE dest
      in if GFC_DESCRIPTOR_RANK dest < rank then Crashed
         else
          (let sz = count_elements 1 (take (nat rank) (dim dest))
           in if sz = 0 then Returned stat s
              else
               (let (pad_str, s1) = make_pad_str (GFC_DESCRIPTOR_TYPE dest) dst_kind dst_size src_size s
                in if rank = 0
                      \<or> (GFC_DESCRIPTOR_TYPE dest = GFC_DESCRIPTOR_TYPE src
                         \<and> dst_kind = src_kind
                         \<and> (GFC_DESCRIPTOR_TYPE dest \<noteq> BT_CHARACTER \<or> dst_size = src_size)
                         \<and> is_contiguous K dest \<and> is_contiguous K src)
                   then
                     (if caf_this_image s1 = image_index
                      then Returned stat
                             (s1\<lparr>heap := memmove (heap s1) (base_addr dest) (base_addr src)
                                           ((sz * src_size) mod 2 ^ 64)\<rparr>)
                      else
                        (let n = (dst_size * sz) mod 2 ^ 64;
                             (ierr, s2) = MPI_Get (base_addr dest) (int_of_size_t n) (image_index - 1)
                                            (ptrdiff_t_of offset) (int_of_size_t n) p s1;
                             s3 = (case pad_str of
                                     None \<Rightarrow> s2
                                   | Some pad \<Rightarrow>
                                       s2\<lparr>heap := memmove (heap s2) (ptr_plus (base_addr dest) (int src_size))
                                                     pad (dst_size - src_size)\<rparr>);
                             s4 = MPI_Win_flush (image_index - 1) p s3
                         in if ierr \<noteq> 0 then terminate_internal K ierr 0 s4 else Returned stat s4))
                   else
                     (let self_tmp = (caf_this_image s1 = image_index \<and> mrt);
                          (t_buff, s2) = (if self_tmp then calloc (sz * dst_size) s1 else (0, s1));
                          (buff_map, s3) = (if self_tmp then calloc sz s2 else (0, s2))
                      in and_then
                           (iterate (get_element K p offset image_index src dest mrt pad_str t_buff buff_map)
                              [0..<sz] s3)
                           (\<lambda>_ s4. and_then
                              (if self_tmp
                               then iterate (get_copy_back offset src dest t_buff buff_map) [0..<sz] s4
                               else Returned () s4)
                              (\<lambda>_ s5. Returned stat (MPI_Win_flush (image_index - 1) p s5)))))))"

text \<open>
  \<^verbatim>\<open>sendget\<close>: a get from image \<open>image_index_g\<close> into a temporary followed by a put to image
  \<open>image_index_s\<close>.  Its \<^verbatim>\<open>pad_str\<close> is never set.
\<close>

definition sendget_element ::
  "libcaf_h \<Rightarrow> nat \<Rightarrow> nat \<Rightarrow> int \<Rightarrow> gfc_descriptor_t \<Rightarrow> nat \<Rightarrow> nat \<Rightarrow> int \<Rightarrow> gfc_descriptor_t \<Rightarrow> addr
     \<Rightarrow> nat \<Rightarrow> caf_state \<Rightarrow> unit outcome" where
  "sendget_element K p_s offset_s image_index_s dest p_g offset_g image_index_g src tmp i s =
     (let rank = GFC_DESCRIPTOR_RANK dest;
          src_size = GFC_DESCRIPTOR_SIZE src;
          dst_size = GFC_DESCRIPTOR_SIZE dest
      in case elem_offset i (take (nat (rank - 1)) (dim dest)) (dim_at dest (rank - 1)) of
           None \<Rightarrow> Crashed
         | Some array_offset_dst \<Rightarrow>
            (let dst_offset = ptrdiff_t_of (offset_s + size_t_of (array_offset_dst * int dst_size))
             in case (if GFC_DESCRIPTOR_RANK src \<noteq> 0
                      then map_option (\<lambda>array_offset_sr. array_offset_sr * int src_size)
                             (elem_offset i (take (nat (GFC_DESCRIPTOR_RANK src - 1)) (dim src))
                                (dim_at src (rank - 1)))
                      else Some 0) of
                  None \<Rightarrow> Crashed
                | Some array_offset_sr \<Rightarrow>
                   (let src_offset = ptrdiff_t_of (offset_g + size_t_of array_offset_sr);
                        (ierr, s1) = MPI_Get tmp (int_of_size_t dst_size) (image_index_g - 1) src_offset
                                       (int_of_size_t src_size) p_g s;
                        s2 = MPI_Win_flush (image_index_g - 1) p_g s1;
                        (ierr, s3) = MPI_Put tmp (int_of_size_t dst_size) (image_index_s - 1) dst_offset
                                       (int_of_size_t dst_size) p_s s2;
                        s4 = MPI_Win_flush (image_index_s - 1) p_s s3
                    in if ierr \<noteq> 0 then terminate_internal K ierr 0 s4 else Returned () s4)))"

definition sendget ::
  "libcaf_h \<Rightarrow> addr \<Rightarrow> nat \<Rightarrow> int \<Rightarrow> gfc_descriptor_t \<Rightarrow> addr \<Rightarrow> nat \<Rightarrow> int \<Rightarrow> gfc_descriptor_t
     \<Rightarrow> int \<Rightarrow> int \<Rightarrow> bool \<Rightarrow> int option \<Rightarrow> caf_state \<Rightarrow> int option outcome" where
  "sendget K token_s offset_s image_index_s dest token_g offset_g image_index_g src
       src_kind dst_kind mrt stat s =
     (let rank = GFC_DESCRIPTOR_RANK dest;
          p_s = memptr_win (token_store s token_s);
          p_g = memptr_win (token_store s token_g);
          src_size = GFC_DESCRIPTOR_SIZE src;
          dst_size = GFC_DESCRIPTOR_SIZE dest;
          sz = count_elements 1 (dim dest)
      in if sz = 0 then Returned stat s
         else if rank = 0
                 \<or> (GFC_DESCRIPTOR_TYPE dest = GFC_DESCRIPTOR_TYPE src
                    \<and> dst_kind = src_kind \<and> GFC_DESCRIPTOR_RANK src \<noteq> 0
                    \<and> (GFC_DESCRIPTOR_TYPE dest \<noteq> BT_CHARACTER \<or> dst_size = src_size)
                    \<and> is_contiguous K dest \<and> is_contiguous K src)
         then
           (let (tmp, s1) = calloc (sz * dst_size) s;
                n = (dst_size * sz) mod 2 ^ 64;
                (ierr, s2) = MPI_Get tmp (int_of_size_t n) (image_index_g - 1) (ptrdiff_t_of offset_g)
                               (int_of_size_t n) p_g s1;
                s3 = MPI_Win_flush (image_index_g - 1) p_g s2;
                (ierr, s4) =
                  (if GFC_DESCRIPTOR_TYPE dest = GFC_DESCRIPTOR_TYPE src \<and> dst_kind = src_kind
                   then MPI_Put tmp (int_of_size_t n) (image_index_s - 1) (ptrdiff_t_of offset_s)
                          (int_of_size_t (((if dst_size > src_size then src_size else dst_size) * sz)
                                            mod 2 ^ 64)) p_s s3
                   else (ierr, s3));
                s5 = MPI_Win_flush (image_index_s - 1) p_s s4
            in if ierr \<noteq> 0 then terminate_internal K ierr 0 s5 else Returned stat s5)
         else
           (let (tmp, s1) = calloc dst_size s
            in and_then
                 (iterate (sendget_element K p_s offset_s image_index_s dest p_g offset_g image_index_g src tmp)
                    [0..<sz] s1)
                 (\<lambda>_ s2. Returned stat s2)))"

subsection \<open>Initialisation\<close>

text \<open>
  \<^verbatim>\<open>init\<close>, as far as the state of this model goes: the image index and count, the table
  \<^verbatim>\<open>images_full\<close> of all other images, the \<^verbatim>\<open>arrived\<close> array, the status window and the
  global dynamic window.
\<close>

definition init :: "caf_state \<Rightarrow> caf_state" where
  "init s =
     (if caf_num_images s = 0 then
        (let s1 = s\<lparr>caf_owns_mpi := \<not> mpi_initialized s, mpi_initialized := True\<rparr>;
             s2 = s1\<lparr>caf_num_images := comm_size s1, caf_this_image := comm_rank s1 + 1,
                     caf_is_finalized := False\<rparr>;
             s3 = s2\<lparr>images_full := filter (\<lambda>i. i \<noteq> caf_this_image s2) [1..caf_num_images s2],
                     arrived := (\<lambda>_. 0)\<rparr>;
             s4 = issue (Win_lock_all (next_win s3)) (s3\<lparr>stat_tok := next_win s3, next_win := next_win s3 + 1\<rparr>);
             s5 = issue (Win_lock_all (next_win s4))
                    (s4\<lparr>global_dynamic_win := next_win s4, next_win := next_win s4 + 1\<rparr>)
         in s5)
      else s)"

subsection \<open>Error messages\<close>

text \<open>
  A caller's message buffer is the list of its characters.  \<^verbatim>\<open>memcpy\<close> and \<^verbatim>\<open>memset\<close> on it
  overwrite a range of positions.
\<close>

definition overwrite :: "'a list \<Rightarrow> nat \<Rightarrow> 'a list \<Rightarrow> 'a list" where
  "overwrite buf off xs = take off buf @ xs @ drop (off + length xs) buf"

text \<open>
  The block shared by \<^verbatim>\<open>register\<close>, \<^verbatim>\<open>deregister\<close> and \<^verbatim>\<open>sync_images_internal\<close>:
  \<^verbatim>\<open>len = strlen (msg) > errmsg_len ? errmsg_len : strlen (msg); memcpy (errmsg, msg, len);
  if (errmsg_len > len) memset (&errmsg[len], ' ', errmsg_len - len);\<close>
\<close>

definition copy_msg_padded :: "string \<Rightarrow> string \<Rightarrow> int \<Rightarrow> string" where
  "copy_msg_padded errmsg msg errmsg_len =
     (let len = (if int (length msg) > errmsg_len then errmsg_len else int (length msg));
          e1 = overwrite errmsg 0 (take (nat len) msg)
      in if errmsg_len > len then overwrite e1 (nat len) (replicate (nat (errmsg_len - len)) CHR '' '')
         else e1)"

text \<open>
  The block of \<^verbatim>\<open>mutex_lock\<close>:
  \<^verbatim>\<open>memset (errmsg, ' ', errmsg_len); memcpy (errmsg, msg, MIN (errmsg_len, strlen (msg)));\<close>
  The comparison in \<^verbatim>\<open>MIN\<close> is unsigned.
\<close>

definition fill_then_copy_msg :: "string \<Rightarrow> string \<Rightarrow> int \<Rightarrow> string" where
  "fill_then_copy_msg errmsg msg errmsg_len =
     (let e1 = overwrite errmsg 0 (replicate (size_t_of errmsg_len) CHR '' '');
          n = (if size_t_of errmsg_len < length msg then size_t_of errmsg_len else length msg)
      in overwrite e1 0 (take n msg))"

subsection \<open>Synchronisation of image subsets\<close>

text \<open>
  What one call of \<^verbatim>\<open>MPI_Waitany\<close> reports: its return code, the index of the completed
  request (\<open>None\<close> for \<^verbatim>\<open>MPI_UNDEFINED\<close>), the source of the message and the integer the
  completed receive has put into \<^verbatim>\<open>arrived[source]\<close>.
\<close>

record waitany_event =
  ev_ierr :: int
  ev_index :: "int option"
  ev_source :: int
  ev_value :: int

definition MPI_SUCCESS :: int where
  "MPI_SUCCESS = 0"

text \<open>The nested loops that look for a duplicate among \<open>images[0 .. count - 1]\<close>.\<close>

definition has_duplicate :: "int list \<Rightarrow> int \<Rightarrow> bool" where
  "has_duplicate images count =
     list_ex (\<lambda>i. list_ex (\<lambda>j. images ! i = images ! j) [0..<i]) [0..<nat count]"

text \<open>
  The loop \<^verbatim>\<open>while (done_count < count)\<close>.  The list holds what the coming calls of
  \<^verbatim>\<open>MPI_Waitany\<close> report; when it is used up nothing arrives any more and the call stays in
  \<^verbatim>\<open>MPI_Waitany\<close>.
\<close>

fun sync_wait :: "libcaf_h \<Rightarrow> int \<Rightarrow> waitany_event list \<Rightarrow> int \<Rightarrow> int \<Rightarrow> caf_state \<Rightarrow> (int \<times> caf_state) option" where
  "sync_wait K count [] done_count ierr s = (if done_count < count then None else Some (ierr, s))"
| "sync_wait K count (e # evs) done_count ierr s =
     (if done_count < count then
        (let s1 = issue Waitany
                    (if ev_ierr e = MPI_SUCCESS \<and> ev_index e \<noteq> None
                     then s\<lparr>arrived := (arrived s)(ev_source e := ev_value e)\<rparr> else s)
         in if ev_ierr e = MPI_SUCCESS \<and> ev_index e \<noteq> None then
              (if arrived s1 (ev_source e) = STAT_STOPPED_IMAGE K then Some (STAT_STOPPED_IMAGE K, s1)
               else sync_wait K count evs (done_count + 1) (ev_ierr e) s1)
            else if ev_ierr e \<noteq> MPI_SUCCESS then Some (ev_ierr e, s1)
            else sync_wait K count evs done_count (ev_ierr e) s1)
      else Some (ierr, s))"

definition post_receives :: "int list \<Rightarrow> int \<times> caf_state \<Rightarrow> int \<times> caf_state" where
  "post_receives images start =
     foldl (\<lambda>(ierr, t) img.
              (mpi_rc t (Irecv (img - 1) MPI_TAG_CAF_SYNC_IMAGES),
               issue (Irecv (img - 1) MPI_TAG_CAF_SYNC_IMAGES) t)) start images"

definition send_syncs :: "int list \<Rightarrow> caf_state \<Rightarrow> caf_state" where
  "send_syncs images s = foldl (\<lambda>t img. issue (Send 0 (img - 1) MPI_TAG_CAF_SYNC_IMAGES) t) s images"

text \<open>The code after the label \<^verbatim>\<open>sync_images_err_chk\<close>.\<close>

definition sync_images_err_chk ::
  "libcaf_h \<Rightarrow> int \<Rightarrow> int option \<Rightarrow> string \<Rightarrow> int \<Rightarrow> bool \<Rightarrow> caf_state \<Rightarrow> (int option \<times> string) outcome" where
  "sync_images_err_chk K ierr stat errmsg errmsg_len internal s =
     (let stat1 = (if stat \<noteq> None then Some ierr else stat)
      in if ierr \<noteq> 0 \<and> ierr \<noteq> STAT_FAILED_IMAGE K then
           (let msg = (if caf_is_finalized s then ''SYNC IMAGES failed - there are stopped images''
                       else ''SYNC IMAGES failed'')
            in if errmsg_len > 0 then Returned (stat1, copy_msg_padded errmsg msg errmsg_len) s
               else if \<not> internal \<and> stat = None then caf_runtime_error s
               else Returned (stat1, errmsg) s)
         else Returned (stat1, errmsg) s)"

definition sync_images_internal ::
  "libcaf_h \<Rightarrow> int \<Rightarrow> int list \<Rightarrow> int option \<Rightarrow> string \<Rightarrow> int \<Rightarrow> bool \<Rightarrow> waitany_event list
     \<Rightarrow> caf_state \<Rightarrow> (int option \<times> string) outcome" where
  "sync_images_internal K count images stat errmsg errmsg_len internal evs s =
     (if count = 1 \<and> images = [] then Crashed
      else if count = 0 \<or> (count = 1 \<and> images ! 0 = caf_this_image s)
      then Returned (if stat \<noteq> None then Some 0 else stat, errmsg) s
      else if int (length images) < count then Crashed
      else if has_duplicate images count
      then sync_images_err_chk K (STAT_DUP_SYNC_IMAGES K)
             (if stat \<noteq> None then Some (STAT_DUP_SYNC_IMAGES K) else stat) errmsg errmsg_len internal s
      else if caf_is_finalized s
      then sync_images_err_chk K (STAT_STOPPED_IMAGE K) stat errmsg errmsg_len internal s
      else
        (let count1 = (if count = - 1 then caf_num_images s - 1 else count);
             images1 = (if count = - 1 then images_full s else images)
         in if int (length images1) < count1 then Crashed
            else
             (let targets = take (nat count1) images1;
                  (ierr, s1) = post_receives targets (0, s);
                  s2 = send_syncs targets s1
              in case sync_wait K count1 evs 0 ierr s2 of
                   None \<Rightarrow> Waits s2
                 | Some (ierr, s3) \<Rightarrow> sync_images_err_chk K ierr stat errmsg errmsg_len internal s3)))"

definition sync_images ::
  "libcaf_h \<Rightarrow> int \<Rightarrow> int list \<Rightarrow> int option \<Rightarrow> string \<Rightarrow> int \<Rightarrow> waitany_event list
     \<Rightarrow> caf_state \<Rightarrow> (int option \<times> string) outcome" where
  "sync_images K count images stat errmsg errmsg_len evs s =
     sync_images_internal K count images stat errmsg errmsg_len False evs s"

subsection \<open>Locks\<close>

text \<open>
  \<^verbatim>\<open>MPI_Compare_and_swap (&newval, &compare, value, MPI_INT, rank, disp, win)\<close>: on success
  \<open>value\<close> receives the integer found in the window, which is replaced by \<open>newval\<close> when it
  equals \<open>compare\<close>.
\<close>

definition MPI_Compare_and_swap :: "int \<Rightarrow> int \<Rightarrow> int \<Rightarrow> int \<Rightarrow> int \<Rightarrow> nat \<Rightarrow> caf_state \<Rightarrow> int \<times> caf_state" where
  "MPI_Compare_and_swap newval compare val rank disp w s =
     (let c = Compare_and_swap rank disp w;
          rc = mpi_rc s c
      in if rc = 0 \<and> 0 \<le> disp then
           (let found = bytes_int (win_load s w rank (nat disp) 4)
            in (found, issue c (if found = compare then win_store s w rank (nat disp) (int_bytes newval)
                                else s)))
         else (val, issue c s))"

definition locking_atomic_op :: "nat \<Rightarrow> int \<Rightarrow> int \<Rightarrow> int \<Rightarrow> int \<Rightarrow> int \<Rightarrow> caf_state \<Rightarrow> int \<times> caf_state" where
  "locking_atomic_op win val newval compare image_index index s =
     (let (v, s1) = MPI_Compare_and_swap newval compare val (image_index - 1)
                      (ptrdiff_t_of (size_t_of index * 4)) win s
      in (v, MPI_Win_flush (image_index - 1) win s1))"

text \<open>
  The loop \<^verbatim>\<open>while (value != 0)\<close> of \<^verbatim>\<open>mutex_lock\<close>.  Between two attempts the other images
  may have written the slot: the list gives, attempt after attempt, the value they left there
  (\<open>None\<close> when they left it alone).  When the list is used up nobody writes the slot any more,
  and a slot that is still taken keeps the loop going for ever.
\<close>

definition others_write :: "int option \<Rightarrow> nat \<Rightarrow> int \<Rightarrow> int \<Rightarrow> caf_state \<Rightarrow> caf_state" where
  "others_write e win image_index index s =
     (case e of
        None \<Rightarrow> s
      | Some v \<Rightarrow> win_store s win (image_index - 1) (nat (ptrdiff_t_of (size_t_of index * 4))) (int_bytes v))"

fun lock_spin :: "nat \<Rightarrow> int \<Rightarrow> int \<Rightarrow> int \<Rightarrow> int option list \<Rightarrow> int \<Rightarrow> caf_state \<Rightarrow> caf_state option" where
  "lock_spin win newval image_index index [] val s =
     (if val \<noteq> 0 then
        (let (v, s1) = locking_atomic_op win val newval 0 image_index index s
         in if v \<noteq> 0 then None else Some s1)
      else Some s)"
| "lock_spin win newval image_index index (e # es) val s =
     (if val \<noteq> 0 then
        (let (v, s1) = locking_atomic_op win val newval 0 image_index index
                         (others_write e win image_index index s)
         in lock_spin win newval image_index index es v s1)
      else Some s)"

definition mutex_lock ::
  "libcaf_h \<Rightarrow> nat \<Rightarrow> int \<Rightarrow> int \<Rightarrow> int option \<Rightarrow> int option \<Rightarrow> string option \<Rightarrow> int \<Rightarrow> int option list
     \<Rightarrow> caf_state \<Rightarrow> (int option \<times> int option \<times> string option) outcome" where
  "mutex_lock K win image_index index stat acquired_lock errmsg errmsg_len others s =
     (let msg = ''Already locked'';
          newval = caf_this_image s;
          ierr = 0;
          stat0 = (if stat \<noteq> None then Some 0 else stat);
          (val, s1) = locking_atomic_op win 0 newval 0 image_index index s
      in if val = caf_this_image s1 \<and> image_index = caf_this_image s1 then
           (let errmsg1 = (case errmsg of
                             None \<Rightarrow> None
                           | Some buf \<Rightarrow> Some (fill_then_copy_msg buf msg errmsg_len))
            in if stat0 \<noteq> None then Returned (Some 99, acquired_lock, errmsg1) s1
               else terminate_internal K 99 1 s1)
         else if acquired_lock \<noteq> None then
           Returned (stat0, Some (if val = 0 then 1 else 0), errmsg) s1
         else
           (case lock_spin win newval image_index index others val s1 of
              None \<Rightarrow> Waits s1
            | Some s2 \<Rightarrow>
                if stat0 \<noteq> None then Returned (Some ierr, acquired_lock, errmsg) s2
                else if ierr = STAT_FAILED_IMAGE K then terminate_internal K ierr 0 s2
                else Returned (stat0, acquired_lock, errmsg) s2))"

definition lock ::
  "libcaf_h \<Rightarrow> addr \<Rightarrow> nat \<Rightarrow> int \<Rightarrow> int option \<Rightarrow> int option \<Rightarrow> string option \<Rightarrow> int \<Rightarrow> int option list
     \<Rightarrow> caf_state \<Rightarrow> (int option \<times> int option \<times> string option) outcome" where
  "lock K token index image_index acquired_lock stat errmsg errmsg_len others s =
     (let p = memptr_win (token_store s token);
          dest_img = (if image_index = 0 then caf_this_image s else image_index)
      in mutex_lock K p dest_img (int_of_size_t index) stat acquired_lock errmsg errmsg_len others s)"

subsection \<open>Atomic operations\<close>

definition type_size :: "mpi_datatype \<Rightarrow> nat" where
  "type_size dt = (case dt of MPI_INT \<Rightarrow> 4 | MPI_DOUBLE \<Rightarrow> 8 | MPI_COMPLEX \<Rightarrow> 8 | MPI_DOUBLE_COMPLEX \<Rightarrow> 16)"

text \<open>\<^verbatim>\<open>selectType\<close> leaves its output untouched when no size matches: \<open>None\<close>.\<close>

definition selectType :: "int \<Rightarrow> mpi_datatype option" where
  "selectType sz =
     (if int (type_size MPI_INT) = sz then Some MPI_INT
      else if int (type_size MPI_DOUBLE) = sz then Some MPI_DOUBLE
      else if int (type_size MPI_COMPLEX) = sz then Some MPI_COMPLEX
      else if int (type_size MPI_DOUBLE_COMPLEX) = sz then Some MPI_DOUBLE_COMPLEX
      else None)"

text \<open>
  \<^verbatim>\<open>MPI_Fetch_and_op (origin, result, dt, rank, disp, op, win)\<close>: the value found in the window
  goes to \<open>result\<close>, and the window receives the reduction of that value with the one at
  \<open>origin\<close>, which has the size of the datatype.
\<close>

definition MPI_Fetch_and_op ::
  "addr \<Rightarrow> addr \<Rightarrow> mpi_datatype \<Rightarrow> int \<Rightarrow> int \<Rightarrow> mpi_op \<Rightarrow> nat \<Rightarrow> caf_state \<Rightarrow> int \<times> caf_state" where
  "MPI_Fetch_and_op origin result dt rank disp opr w s =
     (let c = Fetch_and_op opr dt rank disp w;
          rc = mpi_rc s c
      in if rc = 0 \<and> 0 \<le> disp then
           (let found = win_load s w rank (nat disp) (type_size dt);
                operand = load_bytes (heap s) origin (type_size dt);
                s1 = s\<lparr>heap := store_bytes (heap s) result found\<rparr>
            in (rc, issue c (win_store s1 w rank (nat disp)
                               (take (type_size dt) (mpi_reduce s opr dt found operand)))))
         else (rc, issue c s))"

text \<open>
  \<^verbatim>\<open>atomic_op (op, token, offset, image_index, value, old, stat, type, kind)\<close>.  Its first
  statement is \<^verbatim>\<open>old = malloc (kind)\<close>; \<open>old\<close> is the pointer the caller passed.
\<close>

definition atomic_op ::
  "libcaf_h \<Rightarrow> int \<Rightarrow> addr \<Rightarrow> nat \<Rightarrow> int \<Rightarrow> addr \<Rightarrow> addr \<Rightarrow> int option \<Rightarrow> int \<Rightarrow> caf_state
     \<Rightarrow> int option outcome" where
  "atomic_op K opc token offset image_index val old stat kind s =
     (let p = memptr_win (token_store s token);
          (old, s1) = malloc (size_t_of kind) s;
          image = (if image_index \<noteq> 0 then image_index - 1 else caf_this_image s1 - 1);
          dt = selectType kind;
          opr = (if opc = 1 then Some MPI_SUM else if opc = 2 then Some MPI_BAND
                 else if opc = 4 then Some MPI_BOR else if opc = 5 then Some MPI_BXOR else None)
      in case opr of
           None \<Rightarrow>
             (let s2 = MPI_Win_flush image p s1
              in Returned (if stat \<noteq> None then Some 0 else stat) s2)
         | Some mop \<Rightarrow>
             (case dt of
                None \<Rightarrow> Crashed
              | Some d \<Rightarrow>
                 (let (ierr, s2) = MPI_Fetch_and_op val old d image (ptrdiff_t_of offset) mop p s1;
                      s3 = MPI_Win_flush image p s2
                  in if stat \<noteq> None then Returned (Some ierr) s3
                     else if ierr \<noteq> 0 then terminate_internal K ierr 0 s3
                     else Returned stat s3)))"

subsection \<open>The token registry: register\<close>






subsection \<open>The reference walker: counting the items of an array reference\<close>

text \<open>
  The macro \<^verbatim>\<open>COMPUTE_NUM_ITEMS (num, stride, lb, ub)\<close>.  It leaves the enclosing function
  when the first value of \<open>num\<close> is not positive or the stride is zero: \<open>None\<close>.  The division
  is C's, which truncates.
\<close>

definition COMPUTE_NUM_ITEMS :: "int \<Rightarrow> int \<Rightarrow> int \<Rightarrow> int option" where
  "COMPUTE_NUM_ITEMS stride lb ub =
     (let abs_stride = (if stride > 0 then stride else - stride);
          num = (if stride > 0 then ub + 1 - lb else lb + 1 - ub)
      in if num \<le> 0 \<or> abs_stride < 1 then None
         else Some (if abs_stride > 1 then 1 + (num - 1) sdiv abs_stride else num))"

datatype caf_array_ref_t =
    CAF_ARR_REF_NONE
  | CAF_ARR_REF_VECTOR
  | CAF_ARR_REF_FULL
  | CAF_ARR_REF_RANGE
  | CAF_ARR_REF_SINGLE
  | CAF_ARR_REF_OPEN_END
  | CAF_ARR_REF_OPEN_START

text \<open>
  One dimension of an array reference: the union of the triplet \<open>s\<close> (start, end, stride) and
  the vector \<open>v\<close> (the indices, their number \<open>nvec\<close>, their integer kind).
\<close>

datatype caf_ref_dim =
    Triplet (s_start: int) (s_end: int) (s_stride: int)
  | Vector (v_vector: "int list") (v_nvec: int) (v_kind: int)

datatype dim_step =
    Counted int int
  | Leave
  | Runtime_error
  | Ill_formed

definition counted :: "int option \<Rightarrow> int \<Rightarrow> dim_step" where
  "counted num inc =
     (case num of None \<Rightarrow> Leave | Some delta \<Rightarrow> if delta \<le> 0 then Leave else Counted delta inc)"

text \<open>
  The \<^verbatim>\<open>switch (riter->u.a.mode[i])\<close> of \<^verbatim>\<open>_gfortran_caf_get_by_ref\<close> for a
  \<^verbatim>\<open>CAF_REF_ARRAY\<close> reference, followed by \<^verbatim>\<open>if (delta <= 0) return;\<close>.
  \<^term>\<open>Counted delta inc\<close>: the dimension counts \<open>delta\<close> items and \<^verbatim>\<open>remote_memptr\<close> advances
  by \<open>inc\<close> bytes; \<^const>\<open>Leave\<close>: the function returns; \<^const>\<open>Runtime_error\<close>: it reports an
  unknown kind or mode; \<^const>\<open>Ill_formed\<close>: the mode names the member of the union that the
  dimension does not hold.  The argument \<open>sd\<close> is the dimension of the remote descriptor.  The
  checks of the destination that follow in the source do not change \<open>delta\<close> and are not part
  of this function.
\<close>

fun array_ref_dim :: "caf_array_ref_t \<Rightarrow> caf_ref_dim \<Rightarrow> descriptor_dimension \<Rightarrow> int \<Rightarrow> dim_step" where
  "array_ref_dim CAF_ARR_REF_VECTOR (Vector vec nvec kind) sd item_size =
     (if kind \<in> {1, 2, 4, 8} then
        (case vec of
           [] \<Rightarrow> Ill_formed
         | v0 # _ \<Rightarrow> counted (Some nvec) ((v0 - lower_bound sd) * dim_stride sd * item_size))
      else Runtime_error)"
| "array_ref_dim CAF_ARR_REF_FULL (Triplet start end stride) sd item_size =
     counted (COMPUTE_NUM_ITEMS stride (lower_bound sd) (dim_ubound sd)) 0"
| "array_ref_dim CAF_ARR_REF_RANGE (Triplet start end stride) sd item_size =
     counted (COMPUTE_NUM_ITEMS stride start end)
       ((start - lower_bound sd) * dim_stride sd * item_size)"
| "array_ref_dim CAF_ARR_REF_SINGLE (Triplet start end stride) sd item_size =
     counted (Some 1) ((start - lower_bound sd) * dim_stride sd * item_size)"
| "array_ref_dim CAF_ARR_REF_OPEN_END (Triplet start end stride) sd item_size =
     counted (COMPUTE_NUM_ITEMS stride start (dim_ubound sd))
       ((start - lower_bound sd) * dim_stride sd * item_size)"
| "array_ref_dim CAF_ARR_REF_OPEN_START (Triplet start end stride) sd item_size =
     counted (COMPUTE_NUM_ITEMS stride (lower_bound sd) end) 0"
| "array_ref_dim CAF_ARR_REF_NONE rd sd item_size = Runtime_error"
| "array_ref_dim mode rd sd item_size = Ill_formed"

text \<open>
  The same switch for a \<^verbatim>\<open>CAF_REF_STATIC_ARRAY\<close> reference, whose bounds come from the
  reference itself.  \<^verbatim>\<open>CAF_ARR_REF_FULL\<close> computes \<^verbatim>\<open>end / stride + 1\<close>, which traps on a
  zero stride; the open modes are reported as unknown.
\<close>

fun static_array_ref_dim :: "caf_array_ref_t \<Rightarrow> caf_ref_dim \<Rightarrow> int \<Rightarrow> dim_step" where
  "static_array_ref_dim CAF_ARR_REF_VECTOR (Vector vec nvec kind) item_size =
     (if kind \<in> {1, 2, 4, 8} then
        (case vec of
           [] \<Rightarrow> Ill_formed
         | v0 # _ \<Rightarrow> counted (Some nvec) (v0 * item_size))
      else Runtime_error)"
| "static_array_ref_dim CAF_ARR_REF_FULL (Triplet start end stride) item_size =
     (if stride = 0 then Ill_formed else counted (Some (end sdiv stride + 1)) 0)"
| "static_array_ref_dim CAF_ARR_REF_RANGE (Triplet start end stride) item_size =
     counted (COMPUTE_NUM_ITEMS stride start end) (start * stride * item_size)"
| "static_array_ref_dim CAF_ARR_REF_SINGLE (Triplet start end stride) item_size =
     counted (Some 1) (start * stride * item_size)"
| "static_array_ref_dim CAF_ARR_REF_OPEN_END (Triplet start end stride) item_size = Runtime_error"
| "static_array_ref_dim CAF_ARR_REF_OPEN_START (Triplet start end stride) item_size = Runtime_error"
| "static_array_ref_dim CAF_ARR_REF_NONE rd item_size = Runtime_error"
| "static_array_ref_dim mode rd item_size = Ill_formed"

text \<open>
  The count of one dimension in the words of the specification:
  \<open>num = (stride > 0 ? ub + 1 - lb : lb + 1 - ub); num = 1 + (num - 1) / |stride|\<close>.
\<close>

definition spec_first_num :: "int \<Rightarrow> int \<Rightarrow> int \<Rightarrow> int" where
  "spec_first_num stride lb ub = (if stride > 0 then ub + 1 - lb else lb + 1 - ub)"

definition spec_num_items :: "int \<Rightarrow> int \<Rightarrow> int \<Rightarrow> int" where
  "spec_num_items stride lb ub = 1 + (spec_first_num stride lb ub - 1) div \<bar>stride\<bar>"

subsection \<open>Reading an outcome\<close>

fun exit_code :: "'a outcome \<Rightarrow> int option" where
  "exit_code (Exited c s) = Some c"
| "exit_code other = None"

fun final_state :: "'a outcome \<Rightarrow> caf_state option" where
  "final_state (Returned a s) = Some s"
| "final_state (Exited c s) = Some s"
| "final_state (Waits s) = Some s"
| "final_state Crashed = None"

fun returned :: "'a outcome \<Rightarrow> 'a option" where
  "returned (Returned a s) = Some a"
| "returned other = None"

text \<open>
  The bytes found after a call: \<open>n\<close> bytes of the calling image's memory at address \<open>a\<close>,
  and \<open>n\<close> bytes of window \<open>w\<close> on rank \<open>r\<close> at displacement \<open>d\<close>.
\<close>

definition bytes_after :: "'a outcome \<Rightarrow> addr \<Rightarrow> nat \<Rightarrow> byte list option" where
  "bytes_after out a n = map_option (\<lambda>t. load_bytes (heap t) a n) (final_state out)"

definition window_after :: "'a outcome \<Rightarrow> nat \<Rightarrow> int \<Rightarrow> nat \<Rightarrow> nat \<Rightarrow> byte list option" where
  "window_after out w r d n = map_option (\<lambda>t. win_load t w r d n) (final_state out)"

text \<open>
  The round trip: \<^verbatim>\<open>send\<close> of \<open>A\<close> to the coarray \<open>R\<close> of image \<open>P\<close>, then \<^verbatim>\<open>get\<close> of that
  coarray into \<open>B\<close>, with the same token, offset and kind.
\<close>

definition send_then_get ::
  "libcaf_h \<Rightarrow> addr \<Rightarrow> nat \<Rightarrow> int \<Rightarrow> gfc_descriptor_t \<Rightarrow> gfc_descriptor_t \<Rightarrow> gfc_descriptor_t
     \<Rightarrow> int \<Rightarrow> bool \<Rightarrow> int option \<Rightarrow> caf_state \<Rightarrow> int option outcome" where
  "send_then_get K token offset P R A B kind mrt stat s =
     and_then (send K token offset P R A kind kind mrt stat s)
       (\<lambda>stat1. get K token offset P R B kind kind mrt stat1)"

text \<open>
  What \<^verbatim>\<open>init\<close> establishes: the image index lies among the images and \<^verbatim>\<open>images_full\<close>
  lists all the others.
\<close>

definition initialised :: "caf_state \<Rightarrow> bool" where
  "initialised s \<longleftrightarrow>
     1 \<le> caf_this_image s \<and> caf_this_image s \<le> caf_num_images s
     \<and> images_full s = filter (\<lambda>i. i \<noteq> caf_this_image s) [1..caf_num_images s]"

text \<open>A message cut or padded with blanks to \<open>n\<close> characters.\<close>

definition space_padded :: "string \<Rightarrow> nat \<Rightarrow> string" where
  "space_padded msg n = take n (msg @ replicate n CHR '' '')"

text \<open>
  The displacement of lock slot \<open>index\<close>: \<^verbatim>\<open>lock\<close> passes the \<^verbatim>\<open>size_t\<close> index to the
  \<^verbatim>\<open>int\<close> parameter of \<^verbatim>\<open>mutex_lock\<close>, which computes \<^verbatim>\<open>index * sizeof (int)\<close>.
\<close>

definition lock_disp :: "nat \<Rightarrow> int" where
  "lock_disp index = ptrdiff_t_of (size_t_of (int_of_size_t index) * 4)"

text \<open>
  The element count in the words of the specification: the product of
  \<open>max (0, ub - lb + 1)\<close> over the dimensions of a descriptor.
\<close>

definition spec_element_count :: "descriptor_dimension list \<Rightarrow> int" where
  "spec_element_count ds = prod_list (map (\<lambda>d. max 0 (dim_ubound d - lower_bound d + 1)) ds)"

subsection \<open>A sample configuration\<close>

text \<open>
  Concrete values for the examples: the status codes with the values gfortran gives them, a
  contiguity test that compares each stride with the extent accumulated so far, and image 1
  of 4 after \<^verbatim>\<open>init\<close> with one registered coarray whose window has handle 2 and whose local
  memory starts at address 4096.
\<close>

fun sample_contiguous :: "int \<Rightarrow> descriptor_dimension list \<Rightarrow> bool" where
  "sample_contiguous extent [] = True"
| "sample_contiguous extent (d # ds) =
     (dim_stride d = extent \<and> 0 < dim_ubound d - lower_bound d + 1
      \<and> sample_contiguous (extent * (dim_ubound d - lower_bound d + 1)) ds)"

definition libcaf_sample :: libcaf_h where
  "libcaf_sample =
     \<lparr>STAT_DUP_SYNC_IMAGES = 3, STAT_STOPPED_IMAGE = 6000, STAT_FAILED_IMAGE = 6001,
      is_contiguous = (\<lambda>d. sample_contiguous 1 (dim d))\<rparr>"

definition image1_of_4 :: caf_state where
  "image1_of_4 =
     \<lparr>caf_this_image = 1, caf_num_images = 4, caf_is_finalized = False, caf_owns_mpi = True,
      img_status = 0, images_full = [2, 3, 4], arrived = (\<lambda>_. 0),
      global_dynamic_win = 1, stat_tok = 0, next_win = 3,
      token_store = (\<lambda>_. \<lparr>memptr = 4096, memptr_win = 2, desc = None\<rparr>),
      slave_token_store = (\<lambda>_. \<lparr>slave_memptr = 0, slave_desc = None\<rparr>),
      caf_allocated_tokens = [64], caf_allocated_slave_tokens = [],
      heap = (\<lambda>_. 0), brk = 8192, win_base = (\<lambda>_. 4096), win_mem = (\<lambda>_ _ _. 0),
      mpi_initialized = True, comm_size = 4, comm_rank = 0,
      mpi_reduce = (\<lambda>opr dt found operand.
                      if opr = MPI_SUM \<and> dt = MPI_INT
                      then int_bytes (bytes_int found + bytes_int operand) else operand),
      mpi_rc = (\<lambda>_. 0), mpi_log = []\<rparr>"

section \<open>Properties\<close>

subsection \<open>Counting the items of an array reference\<close>

lemma sdiv_nonneg_eq_div: "0 \<le> a \<Longrightarrow> 0 < b \<Longrightarrow> (a::int) sdiv b = a div b"
  by (simp add: signed_divide_int_def sgn_if)

lemma COMPUTE_NUM_ITEMS_spec:
  assumes "stride \<noteq> 0" and "0 < spec_first_num stride lb ub"
  shows "COMPUTE_NUM_ITEMS stride lb ub = Some (spec_num_items stride lb ub)"
proof -
  let ?n = "spec_first_num stride lb ub"
  have a: "\<bar>stride\<bar> \<ge> 1" using assms(1) by simp
  show ?thesis
  proof (cases "\<bar>stride\<bar> > 1")
    case True
    have "(?n - 1) sdiv \<bar>stride\<bar> = (?n - 1) div \<bar>stride\<bar>"
      using assms(2) True by (intro sdiv_nonneg_eq_div) auto
    then show ?thesis using assms True
      by (auto simp: COMPUTE_NUM_ITEMS_def spec_num_items_def spec_first_num_def Let_def abs_if split: if_splits)
  next
    case False
    then have "\<bar>stride\<bar> = 1" using a by simp
    then show ?thesis using assms
      by (auto simp: COMPUTE_NUM_ITEMS_def spec_num_items_def spec_first_num_def Let_def abs_if split: if_splits)
  qed
qed

lemma spec_num_items_pos:
  "stride \<noteq> 0 \<Longrightarrow> 0 < spec_first_num stride lb ub \<Longrightarrow> 0 < spec_num_items stride lb ub"
  unfolding spec_num_items_def
  by (smt (verit) pos_imp_zdiv_nonneg_iff zero_less_abs_iff)

text \<open>
  Claim C4.  For a dimension of an array reference with a nonzero stride whose first value
  \<open>num = (stride > 0 ? ub + 1 - lb : lb + 1 - ub)\<close> is positive, the walker counts
  \<open>1 + (num - 1) / |stride|\<close> items.  The bounds are those the walker hands to the macro:
  the remote descriptor's for a full reference, the reference's own for a range, the
  reference's start and the descriptor's upper bound for an open end, the descriptor's lower
  bound and the reference's end for an open start.
\<close>

theorem array_ref_dim_counts:
  assumes "stride \<noteq> 0" and "0 < spec_first_num stride lb ub"
  shows "array_ref_dim CAF_ARR_REF_FULL (Triplet st en stride)
            \<lparr>dim_stride = sm, lower_bound = lb, dim_ubound = ub\<rparr> isz
          = Counted (spec_num_items stride lb ub) 0
       \<and> array_ref_dim CAF_ARR_REF_RANGE (Triplet lb ub stride) sd isz
          = Counted (spec_num_items stride lb ub) ((lb - lower_bound sd) * dim_stride sd * isz)
       \<and> array_ref_dim CAF_ARR_REF_OPEN_END (Triplet lb en stride)
            \<lparr>dim_stride = sm, lower_bound = slb, dim_ubound = ub\<rparr> isz
          = Counted (spec_num_items stride lb ub) ((lb - slb) * sm * isz)
       \<and> array_ref_dim CAF_ARR_REF_OPEN_START (Triplet st ub stride)
            \<lparr>dim_stride = sm, lower_bound = lb, dim_ubound = sub\<rparr> isz
          = Counted (spec_num_items stride lb ub) 0"
  using COMPUTE_NUM_ITEMS_spec[OF assms] spec_num_items_pos[OF assms]
  by (simp add: counted_def)

theorem array_ref_dim_counts_witness:
  "(2::int) \<noteq> 0 \<and> 0 < spec_first_num 2 1 10
   \<and> array_ref_dim CAF_ARR_REF_RANGE (Triplet 1 10 2)
        \<lparr>dim_stride = 1, lower_bound = 1, dim_ubound = 20\<rparr> 4 = Counted 5 0
   \<and> array_ref_dim CAF_ARR_REF_FULL (Triplet 0 0 2)
        \<lparr>dim_stride = 1, lower_bound = 1, dim_ubound = 10\<rparr> 4 = Counted 5 0"
proof -
  have h1: "(2::int) \<noteq> 0" by simp
  have h2: "0 < spec_first_num 2 1 10" by (simp add: spec_first_num_def)
  have v: "spec_num_items 2 1 10 = 5" by (simp add: spec_num_items_def spec_first_num_def)
  show ?thesis
    using h1 h2 array_ref_dim_counts[OF h1 h2, where st = 0 and en = 0 and sm = 1 and isz = 4
        and sd = "\<lparr>dim_stride = 1, lower_bound = 1, dim_ubound = 20\<rparr>"]
    by (simp add: v)
qed

text \<open>
  A full reference into a static array counts from the lower bound \<open>0\<close> and computes
  \<open>end / stride + 1\<close>, which is the same number.
\<close>

lemma static_array_ref_dim_counts:
  assumes "stride \<noteq> 0" and "0 < spec_first_num stride 0 ub"
  shows "static_array_ref_dim CAF_ARR_REF_FULL (Triplet st ub stride) isz
          = Counted (spec_num_items stride 0 ub) 0"
proof -
  let ?n = "spec_first_num stride 0 ub"
  have "ub sdiv stride = (?n - 1) div \<bar>stride\<bar>"
  proof (cases "stride > 0")
    case True
    then show ?thesis using assms(2)
      by (simp add: spec_first_num_def sdiv_nonneg_eq_div)
  next
    case False
    then have s: "stride < 0" using assms(1) by simp
    then have u: "ub \<le> 0" using assms(2) by (simp add: spec_first_num_def)
    have "ub sdiv stride = (- ub) div (- stride)"
      using s u by (cases "ub = 0") (simp_all add: signed_divide_int_def sgn_if)
    then show ?thesis using s by (simp add: spec_first_num_def)
  qed
  then have "ub sdiv stride + 1 = spec_num_items stride 0 ub"
    by (simp add: spec_num_items_def)
  then show ?thesis using assms spec_num_items_pos[OF assms]
    by (simp add: counted_def)
qed


subsection \<open>Termination\<close>

lemma issue_simps [simp]:
  "mpi_log (issue c s) = mpi_log s @ [c]"
  "img_status (issue c s) = img_status s"
  "caf_this_image (issue c s) = caf_this_image s"
  "caf_num_images (issue c s) = caf_num_images s"
  "images_full (issue c s) = images_full s"
  "heap (issue c s) = heap s"
  "caf_is_finalized (issue c s) = caf_is_finalized s"
  by (simp_all add: issue_def)

lemma announce_fold:
  "img_status (foldl (\<lambda>t img. issue (Send (img_status t) (img - 1) tag) t) s imgs) = img_status s
   \<and> mpi_log (foldl (\<lambda>t img. issue (Send (img_status t) (img - 1) tag) t) s imgs)
       = mpi_log s @ map (\<lambda>img. Send (img_status s) (img - 1) tag) imgs"
  by (induction imgs arbitrary: s) simp_all

lemma announce_status_log:
  "mpi_log (announce_status s)
     = mpi_log s @ map (\<lambda>img. Send (img_status s) (img - 1) MPI_TAG_CAF_SYNC_IMAGES)
                     (take (nat (caf_num_images s - 1)) (images_full s))"
  and announce_status_img: "img_status (announce_status s) = img_status s"
  by (simp_all add: announce_status_def announce_fold)

lemma free_slave_tokens_keeps:
  "img_status (free_slave_tokens xs s) = img_status s
   \<and> set (mpi_log s) \<subseteq> set (mpi_log (free_slave_tokens xs s))"
  by (induction xs s rule: free_slave_tokens.induct) (auto simp: Let_def)

lemma free_tokens_keeps:
  "img_status (free_tokens xs s) = img_status s
   \<and> set (mpi_log s) \<subseteq> set (mpi_log (free_tokens xs s))"
  by (induction xs s rule: free_tokens.induct) (auto simp: Let_def)

lemma finalize_internal_status:
  "img_status (finalize_internal K (STAT_STOPPED_IMAGE K) s) = STAT_STOPPED_IMAGE K"
  by (simp add: finalize_internal_def Let_def MPI_Win_flush_def announce_status_img
       free_slave_tokens_keeps free_tokens_keeps)


lemma finalize_internal_log:
  "set (map (\<lambda>img. Send (STAT_STOPPED_IMAGE K) (img - 1) MPI_TAG_CAF_SYNC_IMAGES)
          (take (nat (caf_num_images s - 1)) (images_full s)))
     \<subseteq> set (mpi_log (finalize_internal K (STAT_STOPPED_IMAGE K) s))"
proof -
  let ?s1 = "s\<lparr>img_status := STAT_STOPPED_IMAGE K\<rparr>"
  let ?s3 = "announce_status (MPI_Win_flush (caf_this_image ?s1 - 1) (stat_tok ?s1) ?s1)"
  have a: "set (map (\<lambda>img. Send (STAT_STOPPED_IMAGE K) (img - 1) MPI_TAG_CAF_SYNC_IMAGES)
          (take (nat (caf_num_images s - 1)) (images_full s))) \<subseteq> set (mpi_log ?s3)"
    by (auto simp: announce_status_log MPI_Win_flush_def issue_def)
  have b: "set (mpi_log ?s3) \<subseteq> set (mpi_log (finalize_internal K (STAT_STOPPED_IMAGE K) s))"
  proof (cases "STAT_STOPPED_IMAGE K = 0")
    case True
    let ?s5 = "issue (Win_unlock_all (global_dynamic_win (issue Barrier ?s3))) (issue Barrier ?s3)"
    let ?s6 = "free_slave_tokens (caf_allocated_slave_tokens ?s5) ?s5"
    let ?s7 = "free_tokens (caf_allocated_tokens ?s6) ?s6"
    have "set (mpi_log ?s3) \<subseteq> set (mpi_log ?s5)" by auto
    also have "\<dots> \<subseteq> set (mpi_log ?s6)" using free_slave_tokens_keeps by blast
    also have "\<dots> \<subseteq> set (mpi_log ?s7)" using free_tokens_keeps by blast
    finally have "set (mpi_log ?s3) \<subseteq> set (mpi_log ?s7)" .
    then show ?thesis using True
      by (auto simp: finalize_internal_def Let_def)
  next
    case False
    then show ?thesis by (simp add: finalize_internal_def Let_def)
  qed
  from a b show ?thesis by blast
qed

lemma length_others:
  assumes "1 \<le> a" "a \<le> n"
  shows "length (filter (\<lambda>i. i \<noteq> a) [1..n]) = nat (n - 1)"
proof -
  have "length (filter (\<lambda>i. i \<noteq> a) [1..n]) = card ({i. i \<noteq> a} \<inter> set [1..n])"
    by (rule distinct_length_filter) simp
  also have "{i. i \<noteq> a} \<inter> set [1..n] = {1..n} - {a}" by auto
  also have "card ({1..n} - {a}) = card {1..n} - 1" using assms by (subst card_Diff_singleton) auto
  finally show ?thesis using assms by simp
qed

lemma initialised_peers:
  assumes "initialised s"
  shows "set (take (nat (caf_num_images s - 1)) (images_full s))
           = {i. 1 \<le> i \<and> i \<le> caf_num_images s \<and> i \<noteq> caf_this_image s}"
proof -
  have "length (images_full s) = nat (caf_num_images s - 1)"
    using assms length_others unfolding initialised_def by simp
  then have "take (nat (caf_num_images s - 1)) (images_full s) = images_full s" by simp
  then show ?thesis using assms unfolding initialised_def by auto
qed

lemma announce_fold_finalized:
  "caf_is_finalized (foldl (\<lambda>t img. issue (Send (img_status t) (img - 1) tag) t) s imgs)
     = caf_is_finalized s"
  by (induction imgs arbitrary: s) simp_all

lemma announce_status_finalized: "caf_is_finalized (announce_status s) = caf_is_finalized s"
  by (simp add: announce_status_def announce_fold_finalized)

text \<open>
  With a nonzero status code \<^verbatim>\<open>finalize_internal\<close> returns after the announcement: the calls
  it has issued are the flush of the status window and one send to each image of
  \<^verbatim>\<open>images_full\<close>, and \<^verbatim>\<open>caf_is_finalized\<close> is as before.
\<close>

lemma finalize_internal_nonzero:
  assumes "status_code \<noteq> 0"
  shows "mpi_log (finalize_internal K status_code s)
           = mpi_log s @ Win_flush (caf_this_image s - 1) (stat_tok s)
               # map (\<lambda>img. Send status_code (img - 1) MPI_TAG_CAF_SYNC_IMAGES)
                   (take (nat (caf_num_images s - 1)) (images_full s))"
    and "caf_is_finalized (finalize_internal K status_code s) = caf_is_finalized s"
  using assms
  by (simp_all add: finalize_internal_def Let_def announce_status_log announce_status_finalized
        MPI_Win_flush_def issue_def)

text \<open>With status code 0, the call of \<^verbatim>\<open>finalize\<close>, the runtime is taken down.\<close>

lemma finalize_internal_zero:
  "caf_is_finalized (finalize_internal K 0 s)"
  "Barrier \<in> set (mpi_log (finalize_internal K 0 s))"
proof -
  show "caf_is_finalized (finalize_internal K 0 s)"
    by (simp add: finalize_internal_def Let_def)
  let ?s1 = "s\<lparr>img_status := STAT_STOPPED_IMAGE K\<rparr>"
  let ?s3 = "announce_status (MPI_Win_flush (caf_this_image ?s1 - 1) (stat_tok ?s1) ?s1)"
  let ?s5 = "issue (Win_unlock_all (global_dynamic_win (issue Barrier ?s3))) (issue Barrier ?s3)"
  let ?s6 = "free_slave_tokens (caf_allocated_slave_tokens ?s5) ?s5"
  let ?s7 = "free_tokens (caf_allocated_tokens ?s6) ?s6"
  have "Barrier \<in> set (mpi_log ?s5)" by simp
  then have "Barrier \<in> set (mpi_log ?s6)" using free_slave_tokens_keeps by blast
  then have "Barrier \<in> set (mpi_log ?s7)" using free_tokens_keeps by blast
  then show "Barrier \<in> set (mpi_log (finalize_internal K 0 s))"
    by (auto simp: finalize_internal_def Let_def)
qed

lemma initialised_take:
  assumes "initialised s"
  shows "take (nat (caf_num_images s - 1)) (images_full s)
           = filter (\<lambda>i. i \<noteq> caf_this_image s) [1..caf_num_images s]"
proof -
  have "length (images_full s) = nat (caf_num_images s - 1)"
    using assms length_others unfolding initialised_def by simp
  then have "take (nat (caf_num_images s - 1)) (images_full s) = images_full s" by simp
  then show ?thesis using assms unfolding initialised_def by simp
qed

lemma image1_of_4_initialised: "initialised image1_of_4"
  by (simp add: initialised_def image1_of_4_def upto.simps)

text \<open>
  Claim C8, as amended.  On an initialised image \<^verbatim>\<open>stop_numeric\<close> and \<^verbatim>\<open>stop_str\<close> call
  \<^verbatim>\<open>finalize_internal\<close> with the stopped-image code, which leaves the status word at
  \<open>STAT_STOPPED_IMAGE\<close> and sends it to every other image; then the process ends.  The exit
  code of \<^verbatim>\<open>stop_numeric\<close> is the stop code it was given, that of \<^verbatim>\<open>stop_str\<close> is 0.  The
  runtime is not finalised: the stopped-image code being nonzero, the calls issued are the
  flush of the status window, the sends and \<^verbatim>\<open>MPI_Abort\<close>, with no barrier, no window freed and
  no \<^verbatim>\<open>MPI_Finalize\<close>, and \<^verbatim>\<open>caf_is_finalized\<close> keeps its value.
\<close>

theorem stop_exits_without_finalizing:
  assumes "initialised s" and "0 \<le> len" and "len \<le> int (length str)"
  shows "\<exists>t u. stop_numeric K stop_code s = Exited stop_code t
           \<and> stop_str K str len s = Exited 0 u
           \<and> img_status t = STAT_STOPPED_IMAGE K \<and> img_status u = STAT_STOPPED_IMAGE K
           \<and> (\<forall>i. 1 \<le> i \<and> i \<le> caf_num_images s \<and> i \<noteq> caf_this_image s \<longrightarrow>
                 Send (STAT_STOPPED_IMAGE K) (i - 1) MPI_TAG_CAF_SYNC_IMAGES \<in> set (mpi_log t)
               \<and> Send (STAT_STOPPED_IMAGE K) (i - 1) MPI_TAG_CAF_SYNC_IMAGES \<in> set (mpi_log u))
           \<and> (STAT_STOPPED_IMAGE K \<noteq> 0 \<longrightarrow>
                 caf_is_finalized t = caf_is_finalized s \<and> caf_is_finalized u = caf_is_finalized s
               \<and> mpi_log t = mpi_log s @ Win_flush (caf_this_image s - 1) (stat_tok s)
                     # map (\<lambda>i. Send (STAT_STOPPED_IMAGE K) (i - 1) MPI_TAG_CAF_SYNC_IMAGES)
                         (filter (\<lambda>i. i \<noteq> caf_this_image s) [1..caf_num_images s])
                     @ [Abort stop_code]
               \<and> mpi_log u = mpi_log s @ Win_flush (caf_this_image s - 1) (stat_tok s)
                     # map (\<lambda>i. Send (STAT_STOPPED_IMAGE K) (i - 1) MPI_TAG_CAF_SYNC_IMAGES)
                         (filter (\<lambda>i. i \<noteq> caf_this_image s) [1..caf_num_images s])
                     @ [Abort 0])"
proof -
  let ?f = "finalize_internal K (STAT_STOPPED_IMAGE K) s"
  have sends: "Send (STAT_STOPPED_IMAGE K) (i - 1) MPI_TAG_CAF_SYNC_IMAGES \<in> set (mpi_log ?f)"
    if "1 \<le> i" "i \<le> caf_num_images s" "i \<noteq> caf_this_image s" for i
  proof -
    have "i \<in> set (take (nat (caf_num_images s - 1)) (images_full s))"
      using that initialised_peers[OF assms(1)] by simp
    then show ?thesis using finalize_internal_log[of K s] by auto
  qed
  have n: "stop_numeric K stop_code s = Exited stop_code (issue (Abort stop_code) ?f)"
    by (simp add: stop_numeric_def terminate_internal_def)
  have t: "stop_str K str len s = Exited 0 (issue (Abort 0) ?f)"
    using assms(2,3) by (simp add: stop_str_def terminate_internal_def)
  have st: "img_status (issue (Abort c) ?f) = STAT_STOPPED_IMAGE K" for c
    by (simp add: finalize_internal_status)
  have se: "\<forall>i. 1 \<le> i \<and> i \<le> caf_num_images s \<and> i \<noteq> caf_this_image s \<longrightarrow>
              Send (STAT_STOPPED_IMAGE K) (i - 1) MPI_TAG_CAF_SYNC_IMAGES \<in> set (mpi_log (issue (Abort c) ?f))"
    for c using sends by simp
  have nz: "caf_is_finalized (issue (Abort c) ?f) = caf_is_finalized s
          \<and> mpi_log (issue (Abort c) ?f)
              = mpi_log s @ Win_flush (caf_this_image s - 1) (stat_tok s)
                  # map (\<lambda>i. Send (STAT_STOPPED_IMAGE K) (i - 1) MPI_TAG_CAF_SYNC_IMAGES)
                      (filter (\<lambda>i. i \<noteq> caf_this_image s) [1..caf_num_images s])
                  @ [Abort c]"
    if "STAT_STOPPED_IMAGE K \<noteq> 0" for c
    using finalize_internal_nonzero[OF that, of K s] initialised_take[OF assms(1)] by simp
  show ?thesis
    apply (rule exI[of _ "issue (Abort stop_code) ?f"])
    apply (rule exI[of _ "issue (Abort 0) ?f"])
    using n t st se nz by blast
qed

theorem stop_exits_without_finalizing_witness:
  "initialised image1_of_4 \<and> (0::int) \<le> 4 \<and> 4 \<le> int (length ''done'')
   \<and> STAT_STOPPED_IMAGE libcaf_sample \<noteq> 0
   \<and> exit_code (stop_numeric libcaf_sample 0 image1_of_4) = Some 0
   \<and> exit_code (stop_str libcaf_sample ''done'' 4 image1_of_4) = Some 0
   \<and> map_option img_status (final_state (stop_numeric libcaf_sample 0 image1_of_4)) = Some 6000
   \<and> map_option caf_is_finalized (final_state (stop_str libcaf_sample ''done'' 4 image1_of_4))
       = Some False
   \<and> map_option mpi_log (final_state (stop_str libcaf_sample ''done'' 4 image1_of_4))
       = Some [Win_flush 0 0, Send 6000 1 424242, Send 6000 2 424242, Send 6000 3 424242, Abort 0]"
proof -
  have h3: "4 \<le> int (length ''done'')" by simp
  have k: "STAT_STOPPED_IMAGE libcaf_sample = 6000" by (simp add: libcaf_sample_def)
  have nz: "STAT_STOPPED_IMAGE libcaf_sample \<noteq> 0" by (simp add: k)
  have o: "filter (\<lambda>i. i \<noteq> 1) [1..4 :: int] = [2, 3, 4]"
    by (simp add: upto.simps)
  have f: "caf_is_finalized image1_of_4 = False" "mpi_log image1_of_4 = []"
    "caf_this_image image1_of_4 = 1" "stat_tok image1_of_4 = 0" "caf_num_images image1_of_4 = 4"
    by (simp_all add: image1_of_4_def)
  obtain t u where "stop_numeric libcaf_sample 0 image1_of_4 = Exited 0 t"
       "stop_str libcaf_sample ''done'' 4 image1_of_4 = Exited 0 u"
       "img_status t = STAT_STOPPED_IMAGE libcaf_sample"
       "caf_is_finalized u = caf_is_finalized image1_of_4"
       "mpi_log u = mpi_log image1_of_4 @ Win_flush (caf_this_image image1_of_4 - 1) (stat_tok image1_of_4)
                     # map (\<lambda>i. Send (STAT_STOPPED_IMAGE libcaf_sample) (i - 1) MPI_TAG_CAF_SYNC_IMAGES)
                         (filter (\<lambda>i. i \<noteq> caf_this_image image1_of_4) [1..caf_num_images image1_of_4])
                     @ [Abort 0]"
    using stop_exits_without_finalizing[OF image1_of_4_initialised _ h3, of libcaf_sample 0] nz by auto
  then show ?thesis using image1_of_4_initialised nz
    by (simp add: k o f MPI_TAG_CAF_SYNC_IMAGES_def)
qed

text \<open>
  The claim as stated fails: \<^verbatim>\<open>STOP 2\<close> ends the process with exit code 2, and the runtime
  has not been finalised before, \<^verbatim>\<open>caf_is_finalized\<close> is still unset and the only calls are the
  flush of the status window, the three sends and \<^verbatim>\<open>MPI_Abort\<close>.
\<close>

theorem stop_numeric_counterexample:
  "exit_code (stop_numeric libcaf_sample 2 image1_of_4) = Some 2
   \<and> exit_code (stop_numeric libcaf_sample 2 image1_of_4) \<noteq> Some 0
   \<and> map_option caf_is_finalized (final_state (stop_numeric libcaf_sample 2 image1_of_4)) = Some False
   \<and> map_option mpi_log (final_state (stop_numeric libcaf_sample 2 image1_of_4))
       = Some [Win_flush 0 0, Send 6000 1 424242, Send 6000 2 424242, Send 6000 3 424242, Abort 2]"
proof -
  have k: "STAT_STOPPED_IMAGE libcaf_sample = 6000" by (simp add: libcaf_sample_def)
  have nz: "STAT_STOPPED_IMAGE libcaf_sample \<noteq> 0" by (simp add: k)
  have tk: "take (nat (caf_num_images image1_of_4 - 1)) (images_full image1_of_4) = [2, 3, 4]"
    by (simp add: image1_of_4_def)
  have f: "caf_is_finalized image1_of_4 = False" "mpi_log image1_of_4 = []"
    "caf_this_image image1_of_4 = 1" "stat_tok image1_of_4 = 0"
    by (simp_all add: image1_of_4_def)
  show ?thesis
    using finalize_internal_nonzero[OF nz, of libcaf_sample image1_of_4]
    by (simp add: stop_numeric_def terminate_internal_def k tk f MPI_TAG_CAF_SYNC_IMAGES_def)
qed

subsection \<open>Synchronisation of image subsets\<close>

lemma has_duplicate_iff:
  assumes "count \<le> int (length images)"
  shows "has_duplicate images count \<longleftrightarrow> \<not> distinct (take (nat count) images)"
proof -
  let ?n = "nat count"
  have n: "?n \<le> length images" using assms by auto
  have "has_duplicate images count \<longleftrightarrow> (\<exists>i<?n. \<exists>j<i. images ! i = images ! j)"
    unfolding has_duplicate_def list_ex_iff by (simp add: Bex_def)
  also have "\<dots> \<longleftrightarrow> (\<exists>i<?n. \<exists>j<?n. i \<noteq> j \<and> take ?n images ! i = take ?n images ! j)"
  proof
    assume "\<exists>i<?n. \<exists>j<i. images ! i = images ! j"
    then obtain i j where "i < ?n" "j < i" "images ! i = images ! j" by blast
    then show "\<exists>i<?n. \<exists>j<?n. i \<noteq> j \<and> take ?n images ! i = take ?n images ! j"
      by (intro exI[of _ i] conjI exI[of _ j]) auto
  next
    assume "\<exists>i<?n. \<exists>j<?n. i \<noteq> j \<and> take ?n images ! i = take ?n images ! j"
    then obtain i j where ij: "i < ?n" "j < ?n" "i \<noteq> j" "images ! i = images ! j" by auto
    show "\<exists>i<?n. \<exists>j<i. images ! i = images ! j"
    proof (cases "j < i")
      case True then show ?thesis using ij by blast
    next
      case False
      then have "i < j" using ij by simp
      then show ?thesis using ij by (metis)
    qed
  qed
  also have "\<dots> \<longleftrightarrow> \<not> distinct (take ?n images)"
  proof -
    have "length (take ?n images) = ?n" using n by simp
    then have "distinct (take ?n images)
        \<longleftrightarrow> (\<forall>i<?n. \<forall>j<?n. i \<noteq> j \<longrightarrow> take ?n images ! i \<noteq> take ?n images ! j)"
      by (simp add: distinct_conv_nth)
    then show ?thesis by blast
  qed
  finally show ?thesis .
qed

lemma sync_images_empty_or_self:
  "sync_images K 0 images stat errmsg errmsg_len evs s
     = Returned (if stat \<noteq> None then Some 0 else stat, errmsg) s"
  "sync_images K 1 (caf_this_image s # rest) stat errmsg errmsg_len evs s
     = Returned (if stat \<noteq> None then Some 0 else stat, errmsg) s"
  by (simp_all add: sync_images_def sync_images_internal_def)

lemma sync_images_err_chk_stat:
  "\<exists>e. sync_images_err_chk K ierr (Some v) errmsg errmsg_len internal s = Returned (Some ierr, e) s"
  by (simp add: sync_images_err_chk_def Let_def)

lemma sync_images_duplicate:
  assumes "\<not> distinct images"
  shows "\<exists>e. sync_images K (int (length images)) images (Some v) errmsg errmsg_len evs s
              = Returned (Some (STAT_DUP_SYNC_IMAGES K), e) s"
proof -
  have d: "has_duplicate images (int (length images))"
    using assms by (subst has_duplicate_iff) auto
  have l: "2 \<le> length images"
  proof (rule ccontr)
    assume "\<not> 2 \<le> length images"
    then have "length images = 0 \<or> length images = 1" by linarith
    then have "distinct images" by (cases images) auto
    then show False using assms by simp
  qed
  show ?thesis using d l sync_images_err_chk_stat[of K "STAT_DUP_SYNC_IMAGES K" "STAT_DUP_SYNC_IMAGES K"]
    by (auto simp: sync_images_def sync_images_internal_def)
qed

lemma sync_wait_zero: "sync_wait K 0 evs 0 ierr s = Some (ierr, s)"
  by (cases evs) simp_all

lemma images_full_distinct: "initialised s \<Longrightarrow> distinct (images_full s)"
  by (simp add: initialised_def)

lemma images_full_not_self: "initialised s \<Longrightarrow> caf_this_image s \<notin> set (images_full s)"
  by (simp add: initialised_def)

lemma images_full_length: "initialised s \<Longrightarrow> int (length (images_full s)) = caf_num_images s - 1"
  using length_others[of "caf_this_image s" "caf_num_images s"] by (simp add: initialised_def)

lemma sync_images_all_others:
  assumes "initialised s" and "\<not> caf_is_finalized s"
  shows "sync_images K (- 1) images stat errmsg errmsg_len evs s
           = sync_images K (caf_num_images s - 1) (images_full s) stat errmsg errmsg_len evs s"
proof -
  let ?n = "caf_num_images s - 1"
  have len: "int (length (images_full s)) = ?n" by (rule images_full_length[OF assms(1)])
  have nodup: "\<not> has_duplicate (images_full s) ?n"
    using images_full_distinct[OF assms(1)] len by (subst has_duplicate_iff) auto
  have nodup0: "\<not> has_duplicate images (- 1)" by (simp add: has_duplicate_def)
  consider "?n = 0" | "?n = 1" | "2 \<le> ?n" using len by linarith
  then show ?thesis
  proof cases
    case 1
    then have e: "images_full s = []" using len by simp
    show ?thesis using 1 e assms(2) nodup0
      by (simp add: sync_images_def sync_images_internal_def post_receives_def send_syncs_def
            sync_wait_zero sync_images_err_chk_def)
  next
    case 2
    then obtain x where e: "images_full s = [x]" using len by (cases "images_full s") auto
    then have "x \<noteq> caf_this_image s" using images_full_not_self[OF assms(1)] by auto
    then show ?thesis using 2 e assms(2) nodup0 nodup
      by (simp add: sync_images_def sync_images_internal_def)
  next
    case 3
    then show ?thesis using len assms(2) nodup0 nodup
      by (simp add: sync_images_def sync_images_internal_def)
  qed
qed

lemma initialised_others:
  "initialised s \<Longrightarrow> set (images_full s) = {i. 1 \<le> i \<and> i \<le> caf_num_images s \<and> i \<noteq> caf_this_image s}"
  by (auto simp: initialised_def)

text \<open>\<^verbatim>\<open>init\<close> establishes the invariant when the transport reports a rank within the size.\<close>

lemma init_initialised:
  assumes "caf_num_images s = 0" and "0 \<le> comm_rank s" and "comm_rank s < comm_size s"
  shows "initialised (init s)" and "\<not> caf_is_finalized (init s)"
  using assms by (simp_all add: init_def initialised_def Let_def issue_def)

lemma post_receives_state:
  "snd (post_receives imgs (e, s))
     = s\<lparr>mpi_log := mpi_log s @ map (\<lambda>i. Irecv (i - 1) MPI_TAG_CAF_SYNC_IMAGES) imgs\<rparr>"
proof (induction imgs arbitrary: e s)
  case Nil
  then show ?case by (simp add: post_receives_def)
next
  case (Cons a imgs)
  have "snd (post_receives (a # imgs) (e, s))
          = snd (post_receives imgs (mpi_rc s (Irecv (a - 1) MPI_TAG_CAF_SYNC_IMAGES),
                                      issue (Irecv (a - 1) MPI_TAG_CAF_SYNC_IMAGES) s))"
    by (simp add: post_receives_def)
  then show ?case by (simp add: Cons.IH issue_def)
qed

lemma post_receives_empty: "fst (post_receives [] (e, s)) = e"
  by (simp add: post_receives_def)

lemma send_syncs_state:
  "send_syncs imgs s
     = s\<lparr>mpi_log := mpi_log s @ map (\<lambda>i. Send 0 (i - 1) MPI_TAG_CAF_SYNC_IMAGES) imgs\<rparr>"
proof (induction imgs arbitrary: s)
  case Nil
  then show ?case by (simp add: send_syncs_def)
next
  case (Cons a imgs)
  have "send_syncs (a # imgs) s = send_syncs imgs (issue (Send 0 (a - 1) MPI_TAG_CAF_SYNC_IMAGES) s)"
    by (simp add: send_syncs_def)
  then show ?case by (simp add: Cons.IH issue_def)
qed

text \<open>
  The waiting loop when every call of \<^verbatim>\<open>MPI_Waitany\<close> completes one receive and none of the
  integers received is the stopped-image code.
\<close>

lemma sync_wait_all_arrive:
  assumes "\<forall>e\<in>set evs. ev_ierr e = MPI_SUCCESS \<and> ev_index e \<noteq> None \<and> ev_value e \<noteq> STAT_STOPPED_IMAGE K"
  shows "\<exists>t. sync_wait K (d + int (length evs)) evs d ierr s
                = Some (if evs = [] then ierr else 0, t)
            \<and> mpi_log t = mpi_log s @ replicate (length evs) Waitany
            \<and> caf_is_finalized t = caf_is_finalized s"
  using assms
proof (induction evs arbitrary: d ierr s)
  case Nil
  then show ?case by simp
next
  case (Cons e evs)
  let ?s1 = "issue Waitany (s\<lparr>arrived := (arrived s)(ev_source e := ev_value e)\<rparr>)"
  have e: "ev_ierr e = MPI_SUCCESS" "ev_index e \<noteq> None" "ev_value e \<noteq> STAT_STOPPED_IMAGE K"
    using Cons.prems by simp_all
  have rest: "\<forall>e\<in>set evs. ev_ierr e = MPI_SUCCESS \<and> ev_index e \<noteq> None \<and> ev_value e \<noteq> STAT_STOPPED_IMAGE K"
    using Cons.prems by simp
  have c: "d + int (length (e # evs)) = (d + 1) + int (length evs)" by simp
  have a: "arrived ?s1 (ev_source e) = ev_value e" by (simp add: issue_def)
  have step: "sync_wait K (d + int (length (e # evs))) (e # evs) d ierr s
                = sync_wait K ((d + 1) + int (length evs)) evs (d + 1) 0 ?s1"
    unfolding c using e a by (simp add: Let_def MPI_SUCCESS_def)
  obtain t where t: "sync_wait K ((d + 1) + int (length evs)) evs (d + 1) 0 ?s1
                       = Some (if evs = [] then 0 else 0, t)"
      "mpi_log t = mpi_log ?s1 @ replicate (length evs) Waitany"
      "caf_is_finalized t = caf_is_finalized ?s1"
    using Cons.IH[OF rest, of "d + 1" 0 ?s1] by blast
  have "mpi_log t = mpi_log s @ replicate (length (e # evs)) Waitany"
    using t(2) by (simp add: replicate_append_same)
  moreover have "caf_is_finalized t = caf_is_finalized s" using t(3) by simp
  ultimately show ?case using step t(1) by auto
qed

lemma sync_images_minus_one:
  assumes "initialised s" and "\<not> caf_is_finalized s"
  shows "sync_images K (- 1) images stat errmsg errmsg_len evs s
           = (let s2 = send_syncs (images_full s) (snd (post_receives (images_full s) (0, s)))
              in case sync_wait K (caf_num_images s - 1) evs 0
                        (fst (post_receives (images_full s) (0, s))) s2 of
                   None \<Rightarrow> Waits s2
                 | Some (ierr, s3) \<Rightarrow> sync_images_err_chk K ierr stat errmsg errmsg_len False s3)"
proof -
  have len: "int (length (images_full s)) = caf_num_images s - 1"
    by (rule images_full_length[OF assms(1)])
  then have tk: "take (nat (caf_num_images s - 1)) (images_full s) = images_full s"
    by (metis nat_int order_refl take_all)
  have nodup0: "\<not> has_duplicate images (- 1)" by (simp add: has_duplicate_def)
  show ?thesis using assms(2) nodup0 len tk
    by (simp add: sync_images_def sync_images_internal_def Let_def split_def)
qed

text \<open>
  Claim C5.  With a stat argument, \<^verbatim>\<open>sync_images\<close> on a list that holds an image index twice
  returns \<open>STAT_DUP_SYNC_IMAGES\<close> and issues no call; on the empty list and on the list of the
  calling image alone it returns stat 0 and issues no call.  On an initialised, running
  image the count \<open>-1\<close> stands for the list of all images other than the caller: the call
  posts one receive from and then one send to each image from 1 to \<^verbatim>\<open>caf_num_images\<close> except
  the caller, in ascending order, and nothing else before it waits; when no message arrives
  and there is another image it stays in the wait, and when one message per other image
  has arrived, none of them a stop notice, it returns stat 0.
\<close>

theorem sync_images_rules:
  assumes "initialised s" and "\<not> caf_is_finalized s" and "\<not> distinct dups"
  shows "(\<exists>e. sync_images K (int (length dups)) dups (Some v) errmsg errmsg_len evs s
               = Returned (Some (STAT_DUP_SYNC_IMAGES K), e) s)
       \<and> sync_images K 0 images (Some v) errmsg errmsg_len evs s = Returned (Some 0, errmsg) s
       \<and> sync_images K 1 [caf_this_image s] (Some v) errmsg errmsg_len evs s = Returned (Some 0, errmsg) s
       \<and> sync_images K (- 1) images stat errmsg errmsg_len evs s
           = sync_images K (caf_num_images s - 1) (images_full s) stat errmsg errmsg_len evs s
       \<and> set (images_full s) = {i. 1 \<le> i \<and> i \<le> caf_num_images s \<and> i \<noteq> caf_this_image s}
       \<and> (1 < caf_num_images s \<longrightarrow>
            sync_images K (- 1) images stat errmsg errmsg_len [] s
              = Waits (s\<lparr>mpi_log := mpi_log s
                         @ map (\<lambda>i. Irecv (i - 1) MPI_TAG_CAF_SYNC_IMAGES)
                             (filter (\<lambda>i. i \<noteq> caf_this_image s) [1..caf_num_images s])
                         @ map (\<lambda>i. Send 0 (i - 1) MPI_TAG_CAF_SYNC_IMAGES)
                             (filter (\<lambda>i. i \<noteq> caf_this_image s) [1..caf_num_images s])\<rparr>))
       \<and> (int (length arrivals) = caf_num_images s - 1
            \<and> (\<forall>e\<in>set arrivals. ev_ierr e = MPI_SUCCESS \<and> ev_index e \<noteq> None
                                  \<and> ev_value e \<noteq> STAT_STOPPED_IMAGE K) \<longrightarrow>
            (\<exists>t. sync_images K (- 1) images (Some v) errmsg errmsg_len arrivals s
                   = Returned (Some 0, errmsg) t
                 \<and> mpi_log t = mpi_log s
                         @ map (\<lambda>i. Irecv (i - 1) MPI_TAG_CAF_SYNC_IMAGES)
                             (filter (\<lambda>i. i \<noteq> caf_this_image s) [1..caf_num_images s])
                         @ map (\<lambda>i. Send 0 (i - 1) MPI_TAG_CAF_SYNC_IMAGES)
                             (filter (\<lambda>i. i \<noteq> caf_this_image s) [1..caf_num_images s])
                         @ replicate (length arrivals) Waitany))"
proof -
  let ?O = "filter (\<lambda>i. i \<noteq> caf_this_image s) [1..caf_num_images s]"
  let ?log = "mpi_log s @ map (\<lambda>i. Irecv (i - 1) MPI_TAG_CAF_SYNC_IMAGES) ?O
                @ map (\<lambda>i. Send 0 (i - 1) MPI_TAG_CAF_SYNC_IMAGES) ?O"
  let ?s2 = "send_syncs (images_full s) (snd (post_receives (images_full s) (0, s)))"
  have full: "images_full s = ?O" using assms(1) by (simp add: initialised_def)
  have s2: "?s2 = s\<lparr>mpi_log := ?log\<rparr>"
    by (simp add: send_syncs_state post_receives_state full)
  have m: "sync_images K (- 1) images st errmsg errmsg_len es s
           = (case sync_wait K (caf_num_images s - 1) es 0
                        (fst (post_receives (images_full s) (0, s))) ?s2 of
                   None \<Rightarrow> Waits ?s2
                 | Some (ierr, s3) \<Rightarrow> sync_images_err_chk K ierr st errmsg errmsg_len False s3)"
    for st es
    using sync_images_minus_one[OF assms(1,2)] by (simp add: Let_def)
  have waits: "sync_images K (- 1) images stat errmsg errmsg_len [] s = Waits (s\<lparr>mpi_log := ?log\<rparr>)"
    if "1 < caf_num_images s"
    using that by (simp add: m s2)
  have arrive: "\<exists>t. sync_images K (- 1) images (Some v) errmsg errmsg_len arrivals s
                   = Returned (Some 0, errmsg) t
                 \<and> mpi_log t = ?log @ replicate (length arrivals) Waitany"
    if len: "int (length arrivals) = caf_num_images s - 1"
      and ok: "\<forall>e\<in>set arrivals. ev_ierr e = MPI_SUCCESS \<and> ev_index e \<noteq> None
                                  \<and> ev_value e \<noteq> STAT_STOPPED_IMAGE K"
  proof -
    let ?e0 = "fst (post_receives (images_full s) (0, s))"
    have cnt: "caf_num_images s - 1 = 0 + int (length arrivals)" using len by simp
    obtain t where t: "sync_wait K (caf_num_images s - 1) arrivals 0 ?e0 ?s2
                         = Some (if arrivals = [] then ?e0 else 0, t)"
        "mpi_log t = mpi_log ?s2 @ replicate (length arrivals) Waitany"
      using sync_wait_all_arrive[OF ok, of 0 ?e0 ?s2] unfolding cnt by auto
    have "images_full s = []" if "arrivals = []"
      using that len images_full_length[OF assms(1)] by simp
    then have z: "(if arrivals = [] then ?e0 else 0) = 0"
      by (auto simp: post_receives_empty)
    have "sync_images K (- 1) images (Some v) errmsg errmsg_len arrivals s
            = Returned (Some 0, errmsg) t"
      using t(1) z by (simp add: m sync_images_err_chk_def)
    moreover have "mpi_log t = ?log @ replicate (length arrivals) Waitany"
      using t(2) by (simp add: s2)
    ultimately show ?thesis by blast
  qed
  show ?thesis
    using sync_images_duplicate[OF assms(3)] sync_images_empty_or_self[where stat = "Some v"]
      sync_images_all_others[OF assms(1,2)] initialised_others[OF assms(1)] waits arrive
    by simp
qed

theorem sync_images_rules_witness:
  "initialised (init (image1_of_4\<lparr>caf_num_images := 0, caf_this_image := 0, images_full := []\<rparr>))
   \<and> \<not> caf_is_finalized (init (image1_of_4\<lparr>caf_num_images := 0, caf_this_image := 0, images_full := []\<rparr>))
   \<and> \<not> distinct [2, 3, 2 :: int]
   \<and> map_option fst (returned (sync_images libcaf_sample 3 [2, 3, 2] (Some 7) '''' 0 []
         (init (image1_of_4\<lparr>caf_num_images := 0, caf_this_image := 0, images_full := []\<rparr>))))
       = Some (Some 3)
   \<and> returned (sync_images libcaf_sample 0 [] (Some 7) '''' 0 []
         (init (image1_of_4\<lparr>caf_num_images := 0, caf_this_image := 0, images_full := []\<rparr>)))
       = Some (Some 0, '''')
   \<and> returned (sync_images libcaf_sample 1 [1] (Some 7) '''' 0 []
         (init (image1_of_4\<lparr>caf_num_images := 0, caf_this_image := 0, images_full := []\<rparr>)))
       = Some (Some 0, '''')
   \<and> returned (sync_images libcaf_sample (- 1) [] (Some 7) '''' 0 []
         (init (image1_of_4\<lparr>caf_num_images := 0, caf_this_image := 0, images_full := []\<rparr>)))
       = None
   \<and> map_option mpi_log (final_state (sync_images libcaf_sample (- 1) [] (Some 7) '''' 0 []
         (init (image1_of_4\<lparr>caf_num_images := 0, caf_this_image := 0, images_full := []\<rparr>))))
       = Some [Win_lock_all 3, Win_lock_all 4,
               Irecv 1 424242, Irecv 2 424242, Irecv 3 424242,
               Send 0 1 424242, Send 0 2 424242, Send 0 3 424242]
   \<and> returned (sync_images libcaf_sample (- 1) [] (Some 7) '''' 0
         [\<lparr>ev_ierr = 0, ev_index = Some 2, ev_source = 3, ev_value = 0\<rparr>,
          \<lparr>ev_ierr = 0, ev_index = Some 0, ev_source = 1, ev_value = 0\<rparr>,
          \<lparr>ev_ierr = 0, ev_index = Some 1, ev_source = 2, ev_value = 0\<rparr>]
         (init (image1_of_4\<lparr>caf_num_images := 0, caf_this_image := 0, images_full := []\<rparr>)))
       = Some (Some 0, '''')"
proof -
  let ?pre = "image1_of_4\<lparr>caf_num_images := 0, caf_this_image := 0, images_full := []\<rparr>"
  let ?s = "init ?pre"
  let ?evs = "[\<lparr>ev_ierr = 0, ev_index = Some 2, ev_source = 3, ev_value = 0\<rparr>,
          \<lparr>ev_ierr = 0, ev_index = Some 0, ev_source = 1, ev_value = 0\<rparr>,
          \<lparr>ev_ierr = 0, ev_index = Some 1, ev_source = 2, ev_value = 0\<rparr>]"
  have p: "caf_num_images ?pre = 0" "0 \<le> comm_rank ?pre" "comm_rank ?pre < comm_size ?pre"
    by (simp_all add: image1_of_4_def)
  have h1: "initialised ?s" by (rule init_initialised(1)[OF p])
  have h2: "\<not> caf_is_finalized ?s" by (rule init_initialised(2)[OF p])
  have h3: "\<not> distinct [2, 3, 2 :: int]" by simp
  have f: "caf_this_image ?s = 1" "caf_num_images ?s = 4"
    "mpi_log ?s = [Win_lock_all 3, Win_lock_all 4]"
    by (simp_all add: init_def Let_def issue_def image1_of_4_def)
  have k: "STAT_DUP_SYNC_IMAGES libcaf_sample = 3" "STAT_STOPPED_IMAGE libcaf_sample = 6000"
    by (simp_all add: libcaf_sample_def)
  have o: "filter (\<lambda>i. i \<noteq> 1) [1..4 :: int] = [2, 3, 4]"
    by (simp add: upto.simps)
  note r = sync_images_rules[OF h1 h2 h3, where K = libcaf_sample and v = 7 and errmsg = "''''"
      and errmsg_len = 0 and evs = "[]" and images = "[]" and stat = "Some 7" and arrivals = ?evs]
  note r1 = r[THEN conjunct1]
  note r2 = r[THEN conjunct2, THEN conjunct1]
  note r3 = r[THEN conjunct2, THEN conjunct2, THEN conjunct1]
  note r6 = r[THEN conjunct2, THEN conjunct2, THEN conjunct2, THEN conjunct2, THEN conjunct2,
      THEN conjunct1]
  note r7 = r[THEN conjunct2, THEN conjunct2, THEN conjunct2, THEN conjunct2, THEN conjunct2,
      THEN conjunct2]
  have dup: "map_option fst (returned (sync_images libcaf_sample 3 [2, 3, 2] (Some 7) '''' 0 [] ?s))
               = Some (Some 3)"
    using r1 by (auto simp: k)
  have none: "sync_images libcaf_sample 0 [] (Some 7) '''' 0 [] ?s = Returned (Some 0, '''') ?s"
    using r2 by simp
  have self: "sync_images libcaf_sample 1 [1] (Some 7) '''' 0 [] ?s = Returned (Some 0, '''') ?s"
    using r3 by (simp add: f)
  have waits: "sync_images libcaf_sample (- 1) [] (Some 7) '''' 0 [] ?s
                 = Waits (?s\<lparr>mpi_log := [Win_lock_all 3, Win_lock_all 4,
                                Irecv 1 424242, Irecv 2 424242, Irecv 3 424242,
                                Send 0 1 424242, Send 0 2 424242, Send 0 3 424242]\<rparr>)"
    using r6 by (simp add: f o MPI_TAG_CAF_SYNC_IMAGES_def)
  have arrive: "\<exists>t. sync_images libcaf_sample (- 1) [] (Some 7) '''' 0 ?evs ?s
                   = Returned (Some 0, '''') t"
    using r7 by (auto simp: f k MPI_SUCCESS_def)
  show ?thesis
    using h1 h2 dup none self waits arrive by auto
qed

text \<open>
  Claim C10.  On a finalised runtime \<^verbatim>\<open>sync_images\<close> with the empty list or with the list of
  the calling image alone still sets stat to 0 and returns, without a call to the transport:
  the test for these lists comes before the test of \<^verbatim>\<open>caf_is_finalized\<close>.
\<close>

theorem sync_images_noop_when_finalized:
  assumes "caf_is_finalized s"
  shows "sync_images K 0 images (Some v) errmsg errmsg_len evs s = Returned (Some 0, errmsg) s
       \<and> sync_images K 1 (caf_this_image s # rest) (Some v) errmsg errmsg_len evs s
           = Returned (Some 0, errmsg) s"
  using sync_images_empty_or_self[where stat = "Some v"] by simp

theorem sync_images_noop_when_finalized_witness:
  "caf_is_finalized (image1_of_4\<lparr>caf_is_finalized := True\<rparr>)
   \<and> sync_images libcaf_sample 0 [] (Some 7) '''' 0 [] (image1_of_4\<lparr>caf_is_finalized := True\<rparr>)
       = Returned (Some 0, '''') (image1_of_4\<lparr>caf_is_finalized := True\<rparr>)
   \<and> sync_images libcaf_sample 1 [1] (Some 7) '''' 0 [] (image1_of_4\<lparr>caf_is_finalized := True\<rparr>)
       = Returned (Some 0, '''') (image1_of_4\<lparr>caf_is_finalized := True\<rparr>)"
proof -
  have h: "caf_is_finalized (image1_of_4\<lparr>caf_is_finalized := True\<rparr>)" by simp
  have t: "caf_this_image (image1_of_4\<lparr>caf_is_finalized := True\<rparr>) = 1" by (simp add: image1_of_4_def)
  show ?thesis
    using h sync_images_noop_when_finalized[OF h, of libcaf_sample "[]" 7 "''''" 0 "[]" "[]"]
    by (simp add: t)
qed

text \<open>On a finalised runtime any other list without a duplicate is answered with the
  stopped-image code.\<close>

lemma sync_images_stopped_when_finalized:
  assumes "caf_is_finalized s" and "distinct images" and "images \<noteq> []"
    and "images \<noteq> [caf_this_image s]"
  shows "\<exists>e. sync_images K (int (length images)) images (Some v) errmsg errmsg_len evs s
              = Returned (Some (STAT_STOPPED_IMAGE K), e) s"
proof -
  have d: "\<not> has_duplicate images (int (length images))"
    using assms(2) by (subst has_duplicate_iff) auto
  have "\<not> (int (length images) = 1 \<and> images ! 0 = caf_this_image s)"
    using assms(4) by (cases images) auto
  then show ?thesis
    using d assms(1,3) sync_images_err_chk_stat[of K "STAT_STOPPED_IMAGE K"]
    by (auto simp: sync_images_def sync_images_internal_def)
qed

subsection \<open>Error messages\<close>

lemma overwrite_prefix:
  "length xs \<le> length buf \<Longrightarrow> overwrite buf 0 xs = xs @ drop (length xs) buf"
  by (simp add: overwrite_def)

lemma fill_then_copy_msg_padded:
  assumes "0 \<le> n" and "nat n \<le> length buf" and "n < 2 ^ 64"
  shows "fill_then_copy_msg buf msg n = space_padded msg (nat n) @ drop (nat n) buf"
proof -
  have sz: "size_t_of n = nat n" using assms by (simp add: size_t_of_def)
  show ?thesis
  proof (cases "nat n < length msg")
    case True
    then show ?thesis using assms
      by (simp add: fill_then_copy_msg_def sz Let_def overwrite_def space_padded_def)
  next
    case False
    then show ?thesis using assms
      by (simp add: fill_then_copy_msg_def sz Let_def overwrite_def space_padded_def)
  qed
qed


subsection \<open>Locks\<close>

lemma win_store_fields [simp]:
  "caf_this_image (win_store s w r d bs) = caf_this_image s"
  "mpi_rc (win_store s w r d bs) = mpi_rc s"
  "mpi_log (win_store s w r d bs) = mpi_log s"
  "brk (win_store s w r d bs) = brk s"
  "token_store (win_store s w r d bs) = token_store s"
  "win_base (win_store s w r d bs) = win_base s"
  by (simp_all add: win_store_def)

lemma issue_fields [simp]:
  "brk (issue c s) = brk s"
  "token_store (issue c s) = token_store s"
  "win_base (issue c s) = win_base s"
  "win_mem (issue c s) = win_mem s"
  "mpi_rc (issue c s) = mpi_rc s"
  by (simp_all add: issue_def)

lemma locking_atomic_op_found:
  assumes "mpi_rc s (Compare_and_swap (image_index - 1) (ptrdiff_t_of (size_t_of index * 4)) win) = 0"
    and "0 \<le> ptrdiff_t_of (size_t_of index * 4)"
  shows "fst (locking_atomic_op win val newval compare image_index index s)
           = bytes_int (win_load s win (image_index - 1) (nat (ptrdiff_t_of (size_t_of index * 4))) 4)
       \<and> caf_this_image (snd (locking_atomic_op win val newval compare image_index index s))
           = caf_this_image s"
  using assms
  by (simp add: locking_atomic_op_def MPI_Compare_and_swap_def Let_def MPI_Win_flush_def split_def)

text \<open>
  Claim C6.  A call of \<^verbatim>\<open>lock\<close> for a slot of the calling image (image index 0 or its own)
  that holds the calling image's index sets stat to 99 and leaves the message
  \<open>Already locked\<close>, padded with blanks, in the first \<open>errmsg_len\<close> characters of the buffer;
  without a stat argument it ends the process through \<^verbatim>\<open>terminate_internal (99, 1)\<close>.
\<close>

theorem lock_self_deadlock:
  assumes "image_index = 0 \<or> image_index = caf_this_image s"
    and "mpi_rc s (Compare_and_swap (caf_this_image s - 1) (lock_disp index)
                     (memptr_win (token_store s token))) = 0"
    and "0 \<le> lock_disp index"
    and "bytes_int (win_load s (memptr_win (token_store s token)) (caf_this_image s - 1)
                      (nat (lock_disp index)) 4) = caf_this_image s"
    and "0 \<le> errmsg_len" and "nat errmsg_len \<le> length buf" and "errmsg_len < 2 ^ 64"
  shows "(\<exists>t. lock K token index image_index acquired_lock (Some v) (Some buf) errmsg_len others s
              = Returned (Some 99, acquired_lock,
                          Some (space_padded ''Already locked'' (nat errmsg_len) @ drop (nat errmsg_len) buf)) t)
       \<and> (\<exists>t. lock K token index image_index acquired_lock None errmsg errmsg_len others s = Exited 1 t)"
proof -
  let ?p = "memptr_win (token_store s token)"
  let ?me = "caf_this_image s"
  let ?r = "locking_atomic_op ?p 0 ?me 0 ?me (int_of_size_t index) s"
  have f: "fst ?r = ?me \<and> caf_this_image (snd ?r) = ?me"
    using locking_atomic_op_found[of s ?me "int_of_size_t index" ?p 0 ?me 0] assms(2,3,4)
    by (simp add: lock_disp_def)
  have img: "(if image_index = 0 then ?me else image_index) = ?me" using assms(1) by auto
  have m: "fill_then_copy_msg buf ''Already locked'' errmsg_len
             = space_padded ''Already locked'' (nat errmsg_len) @ drop (nat errmsg_len) buf"
    by (rule fill_then_copy_msg_padded[OF assms(5,6,7)])
  show ?thesis
    using f m
    by (simp add: lock_def mutex_lock_def Let_def img split_def terminate_internal_def del: One_nat_def)
qed

lemma lock_disp_small: "index < 2 ^ 29 \<Longrightarrow> lock_disp index = 4 * int index"
  by (simp add: lock_disp_def int_of_size_t_def size_t_of_def ptrdiff_t_of_def Let_def nat_mult_distrib)


lemma lock_disp_0: "lock_disp 0 = 0"
  by (simp add: lock_disp_small)

theorem lock_self_deadlock_witness:
  "caf_this_image (image1_of_4\<lparr>heap := (\<lambda>_. 0)(4096 := 1)\<rparr>) = 1
   \<and> bytes_int (win_load (image1_of_4\<lparr>heap := (\<lambda>_. 0)(4096 := 1)\<rparr>) 2 0 0 4) = 1
   \<and> returned (lock libcaf_sample 64 0 1 None (Some 7) (Some ''xxxxxxxxxxxxxxxxxxxx'') 20 []
                 (image1_of_4\<lparr>heap := (\<lambda>_. 0)(4096 := 1)\<rparr>))
       = Some (Some 99, None, Some ''Already locked      '')
   \<and> exit_code (lock libcaf_sample 64 0 1 None None None 20 []
                   (image1_of_4\<lparr>heap := (\<lambda>_. 0)(4096 := 1)\<rparr>)) = Some 1"
proof -
  let ?s = "image1_of_4\<lparr>heap := (\<lambda>_. 0)(4096 := 1)\<rparr>"
  have me: "caf_this_image ?s = 1" by (simp add: image1_of_4_def)
  have p: "memptr_win (token_store ?s 64) = 2" by (simp add: image1_of_4_def)
  have h1: "(1::int) = 0 \<or> 1 = caf_this_image ?s" using me by simp
  have h2: "mpi_rc ?s (Compare_and_swap (caf_this_image ?s - 1) (lock_disp 0)
                     (memptr_win (token_store ?s 64))) = 0"
    by (simp add: image1_of_4_def)
  have h3: "0 \<le> lock_disp 0" by (simp add: lock_disp_0)
  have slot: "bytes_int (win_load ?s 2 0 0 4) = 1"
    by (simp add: win_load_def image1_of_4_def bytes_int_def eval_nat_numeral)
  have h4: "bytes_int (win_load ?s (memptr_win (token_store ?s 64)) (caf_this_image ?s - 1)
                      (nat (lock_disp 0)) 4) = caf_this_image ?s"
    by (simp add: win_load_def image1_of_4_def bytes_int_def lock_disp_0 eval_nat_numeral)
  have h5: "(0::int) \<le> 20" by simp
  have h6: "nat 20 \<le> length ''xxxxxxxxxxxxxxxxxxxx''" by simp
  have h7: "(20::int) < 2 ^ 64" by simp
  have pad: "space_padded ''Already locked'' 20 = ''Already locked      ''"
    by (simp add: space_padded_def eval_nat_numeral)
  obtain t u where
    "lock libcaf_sample 64 0 1 None (Some 7) (Some ''xxxxxxxxxxxxxxxxxxxx'') 20 [] ?s
       = Returned (Some 99, None, Some (space_padded ''Already locked'' (nat 20)
                                          @ drop (nat 20) ''xxxxxxxxxxxxxxxxxxxx'')) t"
    "lock libcaf_sample 64 0 1 None None None 20 [] ?s = Exited 1 u"
    using lock_self_deadlock[OF h1 h2 h3 h4 h5 h6 h7, of libcaf_sample None 7 "[]" None] by blast
  then show ?thesis using me slot by (simp add: pad)
qed

subsection \<open>The error exit of register\<close>






subsection \<open>Memory\<close>

lemma store_bytes_outside:
  "a < p \<or> p + length bs \<le> a \<Longrightarrow> store_bytes m p bs a = m a"
  by (induction bs arbitrary: m p) auto

lemma load_store_bytes: "load_bytes (store_bytes m p bs) p (length bs) = bs"
proof (induction bs arbitrary: m p)
  case Nil
  then show ?case by simp
next
  case (Cons b bs)
  have "store_bytes (m(p := b)) (Suc p) bs p = (m(p := b)) p"
    by (rule store_bytes_outside) simp
  then show ?case using Cons by simp
qed

lemma length_load_bytes [simp]: "length (load_bytes m p n) = n"
  by (induction n arbitrary: p) simp_all

lemma announce_heap: "heap (announce_status s) = heap s"
proof -
  have "heap (foldl (\<lambda>t img. issue (Send (img_status t) (img - 1) tag) t) s imgs) = heap s"
    for imgs tag by (induction imgs arbitrary: s) simp_all
  then show ?thesis by (simp add: announce_status_def)
qed

lemma free_slave_tokens_heap: "heap (free_slave_tokens xs s) = heap s"
  by (induction xs s rule: free_slave_tokens.induct) (auto simp: Let_def)

lemma free_tokens_heap: "heap (free_tokens xs s) = heap s"
  by (induction xs s rule: free_tokens.induct) (auto simp: Let_def)

lemma finalize_internal_heap: "heap (finalize_internal K c s) = heap s"
  by (simp add: finalize_internal_def Let_def MPI_Win_flush_def announce_heap
        free_slave_tokens_heap free_tokens_heap)

lemma win_store_heap_outside:
  assumes "r = caf_this_image s - 1 \<longrightarrow> a < win_base s w + d \<or> win_base s w + d + length bs \<le> a"
  shows "heap (win_store s w r d bs) a = heap s a"
  using assms by (auto simp: win_store_def store_bytes_outside)

subsection \<open>Atomic operations\<close>

lemma selectType_size: "selectType kind = Some d \<Longrightarrow> int (type_size d) = kind"
  by (auto simp: selectType_def split: if_splits)

lemma MPI_Fetch_and_op_heap:
  assumes "a < result \<or> result + type_size dt \<le> a"
    and "rank = caf_this_image s - 1 \<longrightarrow>
           a < win_base s w + nat disp \<or> win_base s w + nat disp + type_size dt \<le> a"
  shows "heap (snd (MPI_Fetch_and_op origin result dt rank disp opr w s)) a = heap s a"
proof (cases "mpi_rc s (Fetch_and_op opr dt rank disp w) = 0 \<and> 0 \<le> disp")
  case False
  then show ?thesis by (auto simp: MPI_Fetch_and_op_def Let_def)
next
  case True
  let ?found = "win_load s w rank (nat disp) (type_size dt)"
  let ?s1 = "s\<lparr>heap := store_bytes (heap s) result ?found\<rparr>"
  let ?new = "take (type_size dt) (mpi_reduce s opr dt ?found (load_bytes (heap s) origin (type_size dt)))"
  have l: "length ?found = type_size dt" by (simp add: win_load_def)
  have "heap (win_store ?s1 w rank (nat disp) ?new) a = heap ?s1 a"
    using assms(2) by (intro win_store_heap_outside) auto
  also have "\<dots> = heap s a" using assms(1) l by (simp add: store_bytes_outside)
  finally show ?thesis using True by (simp add: MPI_Fetch_and_op_def Let_def)
qed


text \<open>
  Claim C9.  \<^verbatim>\<open>atomic_op\<close> does not use the pointer \<open>old\<close> it is given: any two pointers give
  the same outcome.  The value fetched goes to a block that \<^verbatim>\<open>malloc\<close> hands out inside the
  function, so every byte \<open>a\<close> that was allocated before the call and is not part of the atomic
  variable itself holds after the call what it held before.
\<close>

theorem atomic_op_keeps_old:
  assumes "a < brk s"
    and "image_index = 0 \<or> image_index = caf_this_image s \<longrightarrow>
           a < win_base s (memptr_win (token_store s token)) + nat (ptrdiff_t_of offset)
           \<or> win_base s (memptr_win (token_store s token)) + nat (ptrdiff_t_of offset) + nat kind \<le> a"
  shows "atomic_op K opc token offset image_index val old stat kind s
           = atomic_op K opc token offset image_index val old' stat kind s
       \<and> (\<forall>t. final_state (atomic_op K opc token offset image_index val old stat kind s) = Some t
              \<longrightarrow> heap t a = heap s a)"
proof -
  let ?p = "memptr_win (token_store s token)"
  let ?s1 = "s\<lparr>brk := brk s + size_t_of kind\<rparr>"
  let ?image = "if image_index \<noteq> 0 then image_index - 1 else caf_this_image s - 1"
  have indep: "atomic_op K opc token offset image_index val old stat kind s
           = atomic_op K opc token offset image_index val old' stat kind s"
    by (simp add: atomic_op_def)
  have frame: "heap t a = heap s a"
    if t: "final_state (atomic_op K opc token offset image_index val old stat kind s) = Some t" for t
  proof (cases "opc = 1 \<or> opc = 2 \<or> opc = 4 \<or> opc = 5")
    case False
    then show ?thesis using t
      by (auto simp: atomic_op_def malloc_def Let_def MPI_Win_flush_def)
  next
    case True
    then obtain mop where mop: "(if opc = 1 then Some MPI_SUM else if opc = 2 then Some MPI_BAND
                 else if opc = 4 then Some MPI_BOR else if opc = 5 then Some MPI_BXOR else None) = Some mop"
      by auto
    show ?thesis
    proof (cases "selectType kind")
      case None
      then show ?thesis using t mop by (simp add: atomic_op_def malloc_def Let_def)
    next
      case (Some d)
      have k: "int (type_size d) = kind" by (rule selectType_size[OF Some])
      let ?r = "MPI_Fetch_and_op val (brk s) d ?image (ptrdiff_t_of offset) mop ?p ?s1"
      have own: "?image = caf_this_image s - 1 \<longleftrightarrow> image_index = 0 \<or> image_index = caf_this_image s"
        by auto
      have h: "heap (snd ?r) a = heap ?s1 a"
      proof (rule MPI_Fetch_and_op_heap)
        show "a < brk s \<or> brk s + type_size d \<le> a" using assms(1) by simp
        show "?image = caf_this_image ?s1 - 1 \<longrightarrow>
                a < win_base ?s1 ?p + nat (ptrdiff_t_of offset)
                \<or> win_base ?s1 ?p + nat (ptrdiff_t_of offset) + type_size d \<le> a"
          using assms(2) own k by auto
      qed
      have "t = MPI_Win_flush ?image ?p (snd ?r)
            \<or> t = issue (Abort 0) (finalize_internal K (fst ?r) (MPI_Win_flush ?image ?p (snd ?r)))"
        using t mop Some
        by (auto simp: atomic_op_def malloc_def Let_def split_def terminate_internal_def
              split: if_splits)
      then show ?thesis using h
        by (auto simp: MPI_Win_flush_def finalize_internal_heap)
    qed
  qed
  from indep frame show ?thesis by blast
qed

theorem atomic_op_keeps_old_witness:
  "(200::nat) < brk (image1_of_4\<lparr>heap := (\<lambda>_. 0)(100 := 5, 200 := 9)\<rparr>)
   \<and> map_option (\<lambda>t. heap t 200)
        (final_state (atomic_op libcaf_sample 1 64 0 2 100 200 (Some 7) 4
                        (image1_of_4\<lparr>heap := (\<lambda>_. 0)(100 := 5, 200 := 9)\<rparr>))) = Some 9
   \<and> returned (atomic_op libcaf_sample 1 64 0 2 100 200 (Some 7) 4
                 (image1_of_4\<lparr>heap := (\<lambda>_. 0)(100 := 5, 200 := 9)\<rparr>)) = Some (Some 0)"
proof -
  let ?s = "image1_of_4\<lparr>heap := (\<lambda>_. 0)(100 := 5, 200 := 9)\<rparr>"
  have h1: "(200::nat) < brk ?s" by (simp add: image1_of_4_def)
  have h2: "(2::int) = 0 \<or> 2 = caf_this_image ?s \<longrightarrow>
           200 < win_base ?s (memptr_win (token_store ?s 64)) + nat (ptrdiff_t_of 0)
           \<or> win_base ?s (memptr_win (token_store ?s 64)) + nat (ptrdiff_t_of 0) + nat 4 \<le> 200"
    by (simp add: image1_of_4_def)
  have r: "\<exists>t. atomic_op libcaf_sample 1 64 0 2 100 200 (Some 7) 4 ?s = Returned (Some 0) t"
    by (simp add: atomic_op_def malloc_def selectType_def type_size_def MPI_Fetch_and_op_def
          Let_def image1_of_4_def MPI_Win_flush_def)
  then obtain t where t: "atomic_op libcaf_sample 1 64 0 2 100 200 (Some 7) 4 ?s = Returned (Some 0) t"
    by blast
  have "heap t 200 = heap ?s 200"
    using atomic_op_keeps_old[OF h1 h2, where K = libcaf_sample and opc = 1 and val = 100
        and old = 200 and old' = 200 and stat = "Some 7"] t by simp
  then show ?thesis using h1 t by simp
qed


subsection \<open>Transfers of no element\<close>

lemma count_elements_zero [simp]: "count_elements 0 ds = 0"
  by (induction ds) simp_all

lemma dimextent_max: "dimextent d = max 0 (dim_ubound d - lower_bound d + 1)"
  by (simp add: dimextent_def Let_def max_def)

lemma spec_count_zero_count_elements:
  "spec_element_count ds = 0 \<Longrightarrow> count_elements sz ds = 0"
proof (induction ds arbitrary: sz)
  case Nil
  then show ?case by (simp add: spec_element_count_def)
next
  case (Cons d ds)
  show ?case
  proof (cases "dimextent d = 0")
    case True
    then show ?thesis by (simp add: size_t_of_def)
  next
    case False
    then have "spec_element_count ds = 0"
      using Cons.prems by (auto simp: spec_element_count_def dimextent_max)
    then show ?thesis using Cons.IH by simp
  qed
qed

text \<open>
  Claim C2, as amended.  When the product of \<open>max (0, ub - lb + 1)\<close> over the dimensions of the
  destination descriptor is zero, \<^verbatim>\<open>send\<close> and \<^verbatim>\<open>sendget\<close> return at once, and so does
  \<^verbatim>\<open>get\<close> when its source and destination descriptors have the same rank: the state is the
  one before the call, so no call went to the transport and no window was touched, and stat
  is as it was.
\<close>

theorem zero_count_is_noop:
  assumes "spec_element_count (dim dest) = 0"
  shows "send K token offset image_index dest src dst_kind src_kind mrt stat s = Returned stat s
       \<and> sendget K token_s offset_s image_index_s dest token_g offset_g image_index_g src
             src_kind dst_kind mrt stat s = Returned stat s
       \<and> (length (dim src) = length (dim dest) \<longrightarrow>
            get K token offset image_index src dest src_kind dst_kind mrt stat s = Returned stat s)"
  using spec_count_zero_count_elements[OF assms, of 1]
  by (simp add: send_def sendget_def get_def Let_def GFC_DESCRIPTOR_RANK_def)

theorem zero_count_is_noop_witness:
  "spec_element_count [\<lparr>dim_stride = 1, lower_bound = 1, dim_ubound = 0\<rparr>] = 0
   \<and> get libcaf_sample 64 0 2
        \<lparr>base_addr = 0, desc_type = BT_INTEGER, desc_size = 4,
         dim = [\<lparr>dim_stride = 1, lower_bound = 1, dim_ubound = 0\<rparr>]\<rparr>
        \<lparr>base_addr = 100, desc_type = BT_INTEGER, desc_size = 4,
         dim = [\<lparr>dim_stride = 1, lower_bound = 1, dim_ubound = 0\<rparr>]\<rparr>
        4 4 False (Some 7) image1_of_4 = Returned (Some 7) image1_of_4
   \<and> send libcaf_sample 64 0 2
        \<lparr>base_addr = 0, desc_type = BT_INTEGER, desc_size = 4,
         dim = [\<lparr>dim_stride = 1, lower_bound = 1, dim_ubound = 0\<rparr>]\<rparr>
        \<lparr>base_addr = 100, desc_type = BT_INTEGER, desc_size = 4,
         dim = [\<lparr>dim_stride = 1, lower_bound = 1, dim_ubound = 0\<rparr>]\<rparr>
        4 4 False (Some 7) image1_of_4 = Returned (Some 7) image1_of_4"
proof -
  let ?d = "[\<lparr>dim_stride = 1, lower_bound = 1, dim_ubound = 0\<rparr>]"
  let ?R = "\<lparr>base_addr = 0, desc_type = BT_INTEGER, desc_size = 4, dim = ?d\<rparr>"
  let ?L = "\<lparr>base_addr = 100, desc_type = BT_INTEGER, desc_size = 4, dim = ?d\<rparr>"
  have h: "spec_element_count ?d = 0" by (simp add: spec_element_count_def)
  have h1: "spec_element_count (dim ?R) = 0" using h by simp
  have h2: "spec_element_count (dim ?L) = 0" using h by simp
  show ?thesis
    using h zero_count_is_noop[OF h1, where src = ?L and K = libcaf_sample and token = 64
        and offset = 0 and image_index = 2 and dst_kind = 4 and src_kind = 4 and mrt = False
        and stat = "Some 7" and s = image1_of_4]
      zero_count_is_noop[OF h2, where src = ?R and K = libcaf_sample and token = 64
        and offset = 0 and image_index = 2 and dst_kind = 4 and src_kind = 4 and mrt = False
        and stat = "Some 7" and s = image1_of_4]
    by simp
qed

text \<open>
  The claim as stated fails for \<^verbatim>\<open>get\<close>: its loop runs over the rank of the source.  With a
  scalar source and a destination of one dimension and no element, the count is 1 and a
  transfer of one element is issued.
\<close>

theorem get_zero_count_counterexample:
  "spec_element_count (dim \<lparr>base_addr = 100, desc_type = BT_INTEGER, desc_size = 4,
         dim = [\<lparr>dim_stride = 1, lower_bound = 1, dim_ubound = 0\<rparr>]\<rparr>) = 0
   \<and> map_option mpi_log (final_state (get libcaf_sample 64 0 2
        \<lparr>base_addr = 0, desc_type = BT_INTEGER, desc_size = 4, dim = []\<rparr>
        \<lparr>base_addr = 100, desc_type = BT_INTEGER, desc_size = 4,
         dim = [\<lparr>dim_stride = 1, lower_bound = 1, dim_ubound = 0\<rparr>]\<rparr>
        4 4 False (Some 7) image1_of_4)) = Some [Get 4 1 0 4 2, Win_flush 1 2]
   \<and> get libcaf_sample 64 0 2
        \<lparr>base_addr = 0, desc_type = BT_INTEGER, desc_size = 4, dim = []\<rparr>
        \<lparr>base_addr = 100, desc_type = BT_INTEGER, desc_size = 4,
         dim = [\<lparr>dim_stride = 1, lower_bound = 1, dim_ubound = 0\<rparr>]\<rparr>
        4 4 False (Some 7) image1_of_4 \<noteq> Returned (Some 7) image1_of_4"
proof -
  let ?g = "get libcaf_sample 64 0 2
        \<lparr>base_addr = 0, desc_type = BT_INTEGER, desc_size = 4, dim = []\<rparr>
        \<lparr>base_addr = 100, desc_type = BT_INTEGER, desc_size = 4,
         dim = [\<lparr>dim_stride = 1, lower_bound = 1, dim_ubound = 0\<rparr>]\<rparr>
        4 4 False (Some 7) image1_of_4"
  have l: "map_option mpi_log (final_state ?g) = Some [Get 4 1 0 4 2, Win_flush 1 2]"
    by (simp add: get_def Let_def GFC_DESCRIPTOR_RANK_def GFC_DESCRIPTOR_SIZE_def
          GFC_DESCRIPTOR_TYPE_def make_pad_str_def image1_of_4_def MPI_Get_def MPI_Win_flush_def
          issue_def int_of_size_t_def ptrdiff_t_of_def)
  have "map_option mpi_log (final_state (Returned (Some 7) image1_of_4 :: int option outcome)) = Some []"
    by (simp add: image1_of_4_def)
  then have "?g \<noteq> Returned (Some 7) image1_of_4" using l by auto
  then show ?thesis using l by (simp add: spec_element_count_def)
qed


subsection \<open>Contiguous transfers\<close>

lemma spec_element_count_dimextent: "spec_element_count ds = prod_list (map dimextent ds)"
proof -
  have "(\<lambda>d. max 0 (dim_ubound d - lower_bound d + 1)) = dimextent"
    by (rule ext) (simp add: dimextent_max)
  then show ?thesis by (simp add: spec_element_count_def)
qed

lemma spec_element_count_nonneg: "0 \<le> spec_element_count ds"
  by (induction ds) (simp_all add: spec_element_count_def)

lemma mod_mult_chain: "((a * (b mod m)) mod m * c) mod m = (a * b * c) mod (m::nat)"
  by (simp add: mod_simps)

lemma size_t_of_nonneg: "0 \<le> x \<Longrightarrow> size_t_of x = nat x mod 2 ^ 64"
  unfolding size_t_of_def by (simp add: nat_mod_distrib)

lemma count_elements_spec:
  "sz < 2 ^ 64 \<Longrightarrow> count_elements sz ds = (sz * nat (spec_element_count ds)) mod 2 ^ 64"
proof (induction ds arbitrary: sz)
  case Nil
  then show ?case by (simp add: spec_element_count_def)
next
  case (Cons d ds)
  let ?e = "max 0 (dim_ubound d - lower_bound d + 1)"
  let ?r = "nat (spec_element_count ds)"
  let ?m = "2 ^ 64 :: nat"
  have e: "size_t_of (dimextent d) = nat ?e mod ?m"
    unfolding dimextent_max by (rule size_t_of_nonneg) simp
  have lt: "(sz * (nat ?e mod ?m)) mod ?m < ?m" by (rule mod_less_divisor) simp
  have "count_elements sz (d # ds) = count_elements ((sz * (nat ?e mod ?m)) mod ?m) ds"
    unfolding count_elements.simps e ..
  also have "\<dots> = (((sz * (nat ?e mod ?m)) mod ?m) * ?r) mod ?m"
    by (rule Cons.IH[OF lt])
  also have "\<dots> = ((sz * nat ?e) * ?r) mod ?m"
    by (rule mod_mult_chain)
  also have "(sz * nat ?e) * ?r = sz * nat (spec_element_count (d # ds))"
  proof -
    have "spec_element_count (d # ds) = ?e * spec_element_count ds"
      by (simp add: spec_element_count_def)
    then have "nat (spec_element_count (d # ds)) = nat ?e * ?r"
      by (simp add: nat_mult_distrib)
    then show ?thesis by (simp add: mult.assoc)
  qed
  finally show ?case .
qed

lemma count_elements_small:
  assumes "spec_element_count ds < 2 ^ 64"
  shows "count_elements 1 ds = nat (spec_element_count ds)"
proof -
  have "nat (spec_element_count ds) < 2 ^ 64"
    using assms spec_element_count_nonneg[of ds] by (simp add: nat_less_iff)
  moreover have "count_elements 1 ds = (1 * nat (spec_element_count ds)) mod 2 ^ 64"
    by (rule count_elements_spec) simp
  ultimately show ?thesis by simp
qed


lemma int_of_size_t_small: "n < 2 ^ 31 \<Longrightarrow> int_of_size_t n = int n"
  by (simp add: int_of_size_t_def Let_def)

lemma ptrdiff_t_of_small: "n < 2 ^ 63 \<Longrightarrow> ptrdiff_t_of n = int n"
  by (simp add: ptrdiff_t_of_def Let_def)

lemma make_pad_str_same_size: "make_pad_str ty kind esz esz s = (None, s)"
  by (simp add: make_pad_str_def)

lemma win_load_store:
  "win_load (win_store s w r d bs) w r d (length bs) = bs"
  by (simp add: win_load_def win_store_def load_store_bytes)

lemma win_store_remote_heap:
  "r \<noteq> caf_this_image s - 1 \<Longrightarrow> heap (win_store s w r d bs) = heap s"
  by (simp add: win_store_def)

text \<open>The contiguous branch of \<^verbatim>\<open>send\<close> to another image, when no padding is due.\<close>

lemma send_contiguous_remote:
  assumes "count_elements 1 (dim dest) = cnt" and "cnt \<noteq> 0"
    and "GFC_DESCRIPTOR_SIZE dest = esz" and "GFC_DESCRIPTOR_SIZE src = esz"
    and "GFC_DESCRIPTOR_TYPE dest = GFC_DESCRIPTOR_TYPE src"
    and "GFC_DESCRIPTOR_RANK dest = 0
         \<or> (GFC_DESCRIPTOR_RANK src \<noteq> 0 \<and> is_contiguous K dest \<and> is_contiguous K src)"
    and "caf_this_image s \<noteq> image_index"
    and "esz * cnt < 2 ^ 31" and "offset < 2 ^ 63"
    and "mpi_rc s (Put (int (esz * cnt)) (image_index - 1) (int offset) (int (esz * cnt))
                     (memptr_win (token_store s token))) = 0"
  shows "send K token offset image_index dest src kind kind mrt stat s
           = Returned stat
               (MPI_Win_flush (image_index - 1) (memptr_win (token_store s token))
                  (snd (MPI_Put (base_addr src) (int (esz * cnt)) (image_index - 1) (int offset)
                          (int (esz * cnt)) (memptr_win (token_store s token)) s)))"
proof -
  have n: "(esz * cnt) mod 18446744073709551616 = esz * cnt" using assms(8) by simp
  have i: "int_of_size_t (esz * cnt) = int esz * int cnt"
    using int_of_size_t_small[OF assms(8)] by simp
  have rc: "fst (MPI_Put (base_addr src) (int (esz * cnt)) (image_index - 1) (int offset)
                          (int (esz * cnt)) (memptr_win (token_store s token)) s) = 0"
    using assms(10) by (simp add: MPI_Put_def Let_def)
  show ?thesis
    using assms(1-7) rc
    by (simp add: send_def Let_def make_pad_str_same_size n i
          ptrdiff_t_of_small[OF assms(9)] split_def)
qed

lemma get_contiguous_remote:
  assumes "count_elements 1 (take (nat (GFC_DESCRIPTOR_RANK src)) (dim dest)) = cnt" and "cnt \<noteq> 0"
    and "GFC_DESCRIPTOR_RANK src \<le> GFC_DESCRIPTOR_RANK dest"
    and "GFC_DESCRIPTOR_SIZE dest = esz" and "GFC_DESCRIPTOR_SIZE src = esz"
    and "GFC_DESCRIPTOR_TYPE dest = GFC_DESCRIPTOR_TYPE src"
    and "GFC_DESCRIPTOR_RANK src = 0 \<or> (is_contiguous K dest \<and> is_contiguous K src)"
    and "caf_this_image s \<noteq> image_index"
    and "esz * cnt < 2 ^ 31" and "offset < 2 ^ 63"
    and "mpi_rc s (Get (int (esz * cnt)) (image_index - 1) (int offset) (int (esz * cnt))
                     (memptr_win (token_store s token))) = 0"
  shows "get K token offset image_index src dest kind kind mrt stat s
           = Returned stat
               (MPI_Win_flush (image_index - 1) (memptr_win (token_store s token))
                  (snd (MPI_Get (base_addr dest) (int (esz * cnt)) (image_index - 1) (int offset)
                          (int (esz * cnt)) (memptr_win (token_store s token)) s)))"
proof -
  have n: "(esz * cnt) mod 18446744073709551616 = esz * cnt" using assms(9) by simp
  have i: "int_of_size_t (esz * cnt) = int esz * int cnt"
    using int_of_size_t_small[OF assms(9)] by simp
  have rc: "fst (MPI_Get (base_addr dest) (int (esz * cnt)) (image_index - 1) (int offset)
                          (int (esz * cnt)) (memptr_win (token_store s token)) s) = 0"
    using assms(11) by (simp add: MPI_Get_def Let_def)
  show ?thesis
    using assms(1-8) rc
    by (simp add: get_def Let_def make_pad_str_same_size n i
          ptrdiff_t_of_small[OF assms(10)] split_def)
qed

lemma send_contiguous_self:
  assumes "count_elements 1 (dim dest) = cnt" and "cnt \<noteq> 0"
    and "GFC_DESCRIPTOR_SIZE dest = esz" and "GFC_DESCRIPTOR_SIZE src = esz"
    and "GFC_DESCRIPTOR_TYPE dest = GFC_DESCRIPTOR_TYPE src"
    and "GFC_DESCRIPTOR_RANK dest = 0
         \<or> (GFC_DESCRIPTOR_RANK src \<noteq> 0 \<and> is_contiguous K dest \<and> is_contiguous K src)"
    and "caf_this_image s = image_index"
    and "esz * cnt < 2 ^ 31"
  shows "send K token offset image_index dest src kind kind mrt stat s
           = Returned stat (s\<lparr>heap := memmove (heap s) (base_addr dest) (base_addr src) (esz * cnt)\<rparr>)"
proof -
  have n: "(cnt * esz) mod 18446744073709551616 = esz * cnt" using assms(8) by (simp add: mult.commute)
  show ?thesis
    using assms(1-7)
    by (simp add: send_def Let_def make_pad_str_same_size n split_def)
qed

lemma get_contiguous_self:
  assumes "count_elements 1 (take (nat (GFC_DESCRIPTOR_RANK src)) (dim dest)) = cnt" and "cnt \<noteq> 0"
    and "GFC_DESCRIPTOR_RANK src \<le> GFC_DESCRIPTOR_RANK dest"
    and "GFC_DESCRIPTOR_SIZE dest = esz" and "GFC_DESCRIPTOR_SIZE src = esz"
    and "GFC_DESCRIPTOR_TYPE dest = GFC_DESCRIPTOR_TYPE src"
    and "GFC_DESCRIPTOR_RANK src = 0 \<or> (is_contiguous K dest \<and> is_contiguous K src)"
    and "caf_this_image s = image_index"
    and "esz * cnt < 2 ^ 31"
  shows "get K token offset image_index src dest kind kind mrt stat s
           = Returned stat (s\<lparr>heap := memmove (heap s) (base_addr dest) (base_addr src) (esz * cnt)\<rparr>)"
proof -
  have n: "(cnt * esz) mod 18446744073709551616 = esz * cnt" using assms(9) by (simp add: mult.commute)
  show ?thesis
    using assms(1-8)
    by (simp add: get_def Let_def make_pad_str_same_size n split_def)
qed


lemma win_load_issue [simp]: "win_load (issue c s) w r d n = win_load s w r d n"
  by (simp add: win_load_def issue_def)

lemma MPI_Put_ok:
  assumes "mpi_rc s (Put (int n) r (int d) (int n) w) = 0"
  shows "snd (MPI_Put origin (int n) r (int d) (int n) w s)
           = issue (Put (int n) r (int d) (int n) w) (win_store s w r d (load_bytes (heap s) origin n))"
  using assms by (simp add: MPI_Put_def Let_def)

lemma MPI_Get_ok:
  assumes "mpi_rc s (Get (int n) r (int d) (int n) w) = 0"
  shows "snd (MPI_Get origin (int n) r (int d) (int n) w s)
           = issue (Get (int n) r (int d) (int n) w)
               (s\<lparr>heap := store_bytes (heap s) origin (win_load s w r d n)\<rparr>)"
  using assms by (simp add: MPI_Get_def Let_def)

text \<open>
  Claim C1, as amended.  Let \<open>A\<close>, \<open>B\<close> and the descriptor \<open>R\<close> of the coarray on image \<open>P\<close> be
  contiguous, of one type, kind and element size and of the same extents, and let the array
  have fewer than \<open>2 ^ 31\<close> bytes.  When the transport accepts the put and the get,
  \<^verbatim>\<open>send\<close> of \<open>A\<close> to image \<open>P\<close> followed by \<^verbatim>\<open>get\<close> from image \<open>P\<close> into \<open>B\<close> both return, and
  \<open>B\<close> then holds, byte for byte, what \<open>A\<close> held before the send.  \<open>P\<close> may be any image, the
  calling one included.
\<close>

theorem send_get_round_trip:
  assumes ty: "desc_type R = desc_type A" "desc_type B = desc_type A"
    and sz: "desc_size A = esz" "desc_size R = esz" "desc_size B = esz" "0 < esz"
    and shape: "map dimextent (dim R) = map dimextent (dim A)"
               "map dimextent (dim B) = map dimextent (dim A)"
    and contig: "is_contiguous K A" "is_contiguous K R" "is_contiguous K B"
    and n: "n = esz * nat (spec_element_count (dim A))" "n < 2 ^ 31"
    and off: "offset < 2 ^ 63"
    and rc: "mpi_rc s (Put (int n) (P - 1) (int offset) (int n) (memptr_win (token_store s token))) = 0"
            "mpi_rc s (Get (int n) (P - 1) (int offset) (int n) (memptr_win (token_store s token))) = 0"
  shows "\<exists>s1 t. send K token offset P R A kind kind mrt1 stat1 s = Returned stat1 s1
           \<and> get K token offset P R B kind kind mrt2 stat2 s1 = Returned stat2 t
           \<and> load_bytes (heap t) (base_addr B) n = load_bytes (heap s) (base_addr A) n"
proof -
  let ?cnt = "nat (spec_element_count (dim A))"
  let ?p = "memptr_win (token_store s token)"
  let ?data = "load_bytes (heap s) (base_addr A) n"
  have cn: "?cnt \<le> n" using n(1) sz(4) by simp
  have c31: "?cnt < 2 ^ 31" by (rule le_less_trans[OF cn n(2)])
  have "spec_element_count (dim A) < 2 ^ 31"
    using c31 spec_element_count_nonneg[of "dim A"] by (simp add: nat_less_iff)
  also have "(2::int) ^ 31 < 2 ^ 64" by simp
  finally have small: "spec_element_count (dim A) < 2 ^ 64" .
  have specR: "spec_element_count (dim R) = spec_element_count (dim A)"
    using shape(1) by (simp add: spec_element_count_dimextent)
  have specB: "spec_element_count (dim B) = spec_element_count (dim A)"
    using shape(2) by (simp add: spec_element_count_dimextent)
  have cR: "count_elements 1 (dim R) = ?cnt"
    using count_elements_small[of "dim R"] small specR by simp
  have lenR: "length (dim R) = length (dim A)" using shape(1) by (metis length_map)
  have lenB: "length (dim B) = length (dim A)" using shape(2) by (metis length_map)
  have tk: "take (nat (GFC_DESCRIPTOR_RANK R)) (dim B) = dim B"
    using lenR lenB by (simp add: GFC_DESCRIPTOR_RANK_def)
  have cB: "count_elements 1 (take (nat (GFC_DESCRIPTOR_RANK R)) (dim B)) = ?cnt"
    using count_elements_small[of "dim B"] small specB tk by simp
  have rk: "GFC_DESCRIPTOR_RANK R \<le> GFC_DESCRIPTOR_RANK B"
    using lenR lenB by (simp add: GFC_DESCRIPTOR_RANK_def)
  have szs: "GFC_DESCRIPTOR_SIZE R = esz" "GFC_DESCRIPTOR_SIZE A = esz" "GFC_DESCRIPTOR_SIZE B = esz"
    using sz by (simp_all add: GFC_DESCRIPTOR_SIZE_def)
  have tys: "GFC_DESCRIPTOR_TYPE R = GFC_DESCRIPTOR_TYPE A" "GFC_DESCRIPTOR_TYPE B = GFC_DESCRIPTOR_TYPE R"
    using ty by (simp_all add: GFC_DESCRIPTOR_TYPE_def)
  have cs: "GFC_DESCRIPTOR_RANK R = 0
         \<or> (GFC_DESCRIPTOR_RANK A \<noteq> 0 \<and> is_contiguous K R \<and> is_contiguous K A)"
    using contig lenR by (simp add: GFC_DESCRIPTOR_RANK_def)
  have cg: "GFC_DESCRIPTOR_RANK R = 0 \<or> (is_contiguous K B \<and> is_contiguous K R)"
    using contig by simp
  have nn: "esz * ?cnt < 2 ^ 31" using n by simp
  show ?thesis
  proof (cases "?cnt = 0")
    case True
    then have z: "n = 0" using n(1) by simp
    have "send K token offset P R A kind kind mrt1 stat1 s = Returned stat1 s"
      using cR True by (simp add: send_def Let_def)
    moreover have "get K token offset P R B kind kind mrt2 stat2 s = Returned stat2 s"
      using cB True rk by (simp add: get_def Let_def)
    ultimately show ?thesis using z by simp
  next
    case False
    show ?thesis
    proof (cases "caf_this_image s = P")
      case True
      let ?s1 = "s\<lparr>heap := memmove (heap s) (base_addr R) (base_addr A) (esz * ?cnt)\<rparr>"
      let ?t = "?s1\<lparr>heap := memmove (heap ?s1) (base_addr B) (base_addr R) (esz * ?cnt)\<rparr>"
      have s: "send K token offset P R A kind kind mrt1 stat1 s = Returned stat1 ?s1"
        by (rule send_contiguous_self[OF cR False szs(1,2) tys(1) cs True nn])
      have me: "caf_this_image ?s1 = P" using True by simp
      have g: "get K token offset P R B kind kind mrt2 stat2 ?s1 = Returned stat2 ?t"
        by (rule get_contiguous_self[OF cB False rk szs(3,1) tys(2) cg me nn])
      have "load_bytes (heap ?t) (base_addr B) n = ?data"
        using n(1) by (simp add: memmove_def load_store_bytes[of _ _ "load_bytes m a k" for m a k, simplified])
      then show ?thesis using s g by blast
    next
      case False
      note remote = this
      let ?put = "Put (int n) (P - 1) (int offset) (int n) ?p"
      let ?s1 = "MPI_Win_flush (P - 1) ?p
                   (snd (MPI_Put (base_addr A) (int n) (P - 1) (int offset) (int n) ?p s))"
      have rcp: "mpi_rc s (Put (int (esz * ?cnt)) (P - 1) (int offset) (int (esz * ?cnt)) ?p) = 0"
        using rc(1) n(1) by simp
      have s: "send K token offset P R A kind kind mrt1 stat1 s = Returned stat1 ?s1"
        using send_contiguous_remote[OF cR \<open>?cnt \<noteq> 0\<close> szs(1,2) tys(1) cs remote nn off rcp]
          n(1) by simp
      have s1: "?s1 = issue (Win_flush (P - 1) ?p)
                        (issue ?put (win_store s ?p (P - 1) offset ?data))"
        using MPI_Put_ok[OF rc(1)] by (simp add: MPI_Win_flush_def)
      have f1: "caf_this_image ?s1 = caf_this_image s" "token_store ?s1 = token_store s"
               "mpi_rc ?s1 = mpi_rc s"
        unfolding s1 by simp_all
      have r: "P - 1 \<noteq> caf_this_image s - 1" using remote by simp
      have wl: "win_load ?s1 ?p (P - 1) offset n = ?data"
        unfolding s1 using win_load_store[of s ?p "P - 1" offset ?data] by simp
      let ?t = "MPI_Win_flush (P - 1) ?p
                  (snd (MPI_Get (base_addr B) (int n) (P - 1) (int offset) (int n) ?p ?s1))"
      have rcg: "mpi_rc ?s1 (Get (int (esz * ?cnt)) (P - 1) (int offset) (int (esz * ?cnt))
                     (memptr_win (token_store ?s1 token))) = 0"
        using rc(2) n(1) f1 by simp
      have me: "caf_this_image ?s1 \<noteq> P" using remote f1 by simp
      have g: "get K token offset P R B kind kind mrt2 stat2 ?s1 = Returned stat2 ?t"
        using get_contiguous_remote[OF cB \<open>?cnt \<noteq> 0\<close> rk szs(3,1) tys(2) cg me nn off rcg]
          n(1) f1 by simp
      have rcg': "mpi_rc ?s1 (Get (int n) (P - 1) (int offset) (int n) ?p) = 0"
        using rc(2) f1 by simp
      have "heap ?t = store_bytes (heap ?s1) (base_addr B) ?data"
        using MPI_Get_ok[OF rcg'] wl by (simp add: MPI_Win_flush_def)
      then have "load_bytes (heap ?t) (base_addr B) n = ?data"
        using load_store_bytes[of "heap ?s1" "base_addr B" ?data] by simp
      then show ?thesis using s g by blast
    qed
  qed
qed

theorem send_get_round_trip_witness:
  "\<exists>s1 t.
     send libcaf_sample 64 0 2
       \<lparr>base_addr = 0, desc_type = BT_INTEGER, desc_size = 4,
        dim = [\<lparr>dim_stride = 1, lower_bound = 1, dim_ubound = 2\<rparr>]\<rparr>
       \<lparr>base_addr = 100, desc_type = BT_INTEGER, desc_size = 4,
        dim = [\<lparr>dim_stride = 1, lower_bound = 1, dim_ubound = 2\<rparr>]\<rparr>
       4 4 False None (image1_of_4\<lparr>heap := (\<lambda>_. 0)(100 := 1, 104 := 2)\<rparr>) = Returned None s1
     \<and> get libcaf_sample 64 0 2
       \<lparr>base_addr = 0, desc_type = BT_INTEGER, desc_size = 4,
        dim = [\<lparr>dim_stride = 1, lower_bound = 1, dim_ubound = 2\<rparr>]\<rparr>
       \<lparr>base_addr = 200, desc_type = BT_INTEGER, desc_size = 4,
        dim = [\<lparr>dim_stride = 1, lower_bound = 1, dim_ubound = 2\<rparr>]\<rparr>
       4 4 False None s1 = Returned None t
     \<and> load_bytes (heap t) 200 8 = [1, 0, 0, 0, 2, 0, 0, 0]"
proof -
  let ?d = "[\<lparr>dim_stride = 1, lower_bound = 1, dim_ubound = 2\<rparr>]"
  let ?R = "\<lparr>base_addr = 0, desc_type = BT_INTEGER, desc_size = 4, dim = ?d\<rparr>"
  let ?A = "\<lparr>base_addr = 100, desc_type = BT_INTEGER, desc_size = 4, dim = ?d\<rparr>"
  let ?B = "\<lparr>base_addr = 200, desc_type = BT_INTEGER, desc_size = 4, dim = ?d\<rparr>"
  let ?s = "image1_of_4\<lparr>heap := (\<lambda>_. 0)(100 := 1, 104 := 2)\<rparr>"
  have a: "load_bytes (heap ?s) (base_addr ?A) 8 = [1, 0, 0, 0, 2, 0, 0, 0]"
    by (simp add: load_bytes_def upt_rec)
  have ty: "desc_type ?R = desc_type ?A" "desc_type ?B = desc_type ?A" by simp_all
  have sz: "desc_size ?A = 4" "desc_size ?R = 4" "desc_size ?B = 4" "0 < (4::nat)" by simp_all
  have shape: "map dimextent (dim ?R) = map dimextent (dim ?A)"
    "map dimextent (dim ?B) = map dimextent (dim ?A)" by simp_all
  have contig: "is_contiguous libcaf_sample ?A" "is_contiguous libcaf_sample ?R"
    "is_contiguous libcaf_sample ?B" by (simp_all add: libcaf_sample_def)
  have n: "(8::nat) = 4 * nat (spec_element_count (dim ?A))" "(8::nat) < 2 ^ 31"
    by (simp_all add: spec_element_count_def)
  have off: "(0::nat) < 2 ^ 63" by simp
  have rc: "mpi_rc ?s (Put (int 8) (2 - 1) (int 0) (int 8) (memptr_win (token_store ?s 64))) = 0"
    "mpi_rc ?s (Get (int 8) (2 - 1) (int 0) (int 8) (memptr_win (token_store ?s 64))) = 0"
    by (simp_all add: image1_of_4_def)
  have "\<exists>s1 t. send libcaf_sample 64 0 2 ?R ?A 4 4 False None ?s = Returned None s1
           \<and> get libcaf_sample 64 0 2 ?R ?B 4 4 False None s1 = Returned None t
           \<and> load_bytes (heap t) (base_addr ?B) 8 = load_bytes (heap ?s) (base_addr ?A) 8"
    by (rule send_get_round_trip[OF ty sz shape contig n off rc])
  then show ?thesis unfolding a by simp
qed

lemma upt_2: "[0..<2] = [0, Suc 0]" by (simp add: upt_rec)

lemma load_bytes_2: "load_bytes m a 2 = [m a, m (Suc a)]"
  by (simp add: load_bytes_def upt_2)

lemma load_bytes_1: "load_bytes m a (Suc 0) = [m a]"
  by (simp add: load_bytes_def)

lemma load_bytes_4: "load_bytes m a 4 = [m a, m (Suc a), m (Suc (Suc a)), m (Suc (Suc (Suc a)))]"
  by (simp add: load_bytes_def upt_rec numeral_Bit0)

text \<open>
  The claim as stated fails for a large array.  The byte counts of \<^verbatim>\<open>MPI_Put\<close> and
  \<^verbatim>\<open>MPI_Get\<close> are of type \<^verbatim>\<open>int\<close>: for a contiguous array of \<open>2 ^ 32\<close> one-byte elements the
  \<^verbatim>\<open>size_t\<close> product converts to the count 0, nothing is moved, and \<open>B\<close> keeps what it held
  while the first byte of \<open>A\<close> is 7.
\<close>

theorem send_get_large_array_counterexample:
  "is_contiguous libcaf_sample
     \<lparr>base_addr = 100, desc_type = BT_INTEGER, desc_size = 1,
      dim = [\<lparr>dim_stride = 1, lower_bound = 1, dim_ubound = 4294967296\<rparr>]\<rparr>
   \<and> load_bytes (heap (image1_of_4\<lparr>heap := (\<lambda>_. 0)(100 := 7)\<rparr>)) 100 1 = [7]
   \<and> bytes_after
       (send_then_get libcaf_sample 64 0 2
          \<lparr>base_addr = 0, desc_type = BT_INTEGER, desc_size = 1,
           dim = [\<lparr>dim_stride = 1, lower_bound = 1, dim_ubound = 4294967296\<rparr>]\<rparr>
          \<lparr>base_addr = 100, desc_type = BT_INTEGER, desc_size = 1,
           dim = [\<lparr>dim_stride = 1, lower_bound = 1, dim_ubound = 4294967296\<rparr>]\<rparr>
          \<lparr>base_addr = 8589934592, desc_type = BT_INTEGER, desc_size = 1,
           dim = [\<lparr>dim_stride = 1, lower_bound = 1, dim_ubound = 4294967296\<rparr>]\<rparr>
          1 False None (image1_of_4\<lparr>heap := (\<lambda>_. 0)(100 := 7)\<rparr>))
       8589934592 1 = Some [0]"
  by (simp add: bytes_after_def send_then_get_def send_def get_def Let_def split_def
        GFC_DESCRIPTOR_RANK_def GFC_DESCRIPTOR_SIZE_def GFC_DESCRIPTOR_TYPE_def
        dimextent_def size_t_of_def ptrdiff_t_of_def int_of_size_t_def
        make_pad_str_def libcaf_sample_def image1_of_4_def load_bytes_1
        MPI_Put_def MPI_Get_def MPI_Win_flush_def issue_def win_store_def win_load_def
        store_bytes_def load_bytes_def)


subsection \<open>Character padding\<close>

text \<open>
  Claim C3.  \<^verbatim>\<open>send\<close> from image 1 to image 2 of a \<^verbatim>\<open>CHARACTER\<close> array of two elements of
  length 1, holding \<open>a\<close> and \<open>b\<close> and followed in memory by \<open>c\<close>, into elements of length 2
  of kind 1.  The claim asks for \<open>a\<close>, blank, \<open>b\<close>, blank in the window of image 2.  The
  element-wise loop puts \<^verbatim>\<open>dst_size\<close> bytes from the source and then the pad at the same
  displacement \<^verbatim>\<open>dst_offset\<close>, so each element holds a blank followed by the byte that comes
  after the source element: the trailing code unit is not a blank.
\<close>

theorem send_character_array_padding:
  "window_after
     (send libcaf_sample 64 0 2
        \<lparr>base_addr = 0, desc_type = BT_CHARACTER, desc_size = 2,
         dim = [\<lparr>dim_stride = 1, lower_bound = 1, dim_ubound = 2\<rparr>]\<rparr>
        \<lparr>base_addr = 100, desc_type = BT_CHARACTER, desc_size = 1,
         dim = [\<lparr>dim_stride = 1, lower_bound = 1, dim_ubound = 2\<rparr>]\<rparr>
        1 1 False None
        (image1_of_4\<lparr>heap := (\<lambda>_. 0)(100 := 0x61, 101 := 0x62, 102 := 0x63)\<rparr>))
     2 1 0 4
   = Some [0x20, 0x62, 0x20, 0x63]"
  by (simp add: window_after_def send_def send_element_def Let_def split_def
        GFC_DESCRIPTOR_RANK_def GFC_DESCRIPTOR_SIZE_def GFC_DESCRIPTOR_TYPE_def
        dimextent_def size_t_of_def ptrdiff_t_of_def int_of_size_t_def
        make_pad_str_def alloca_def memset_def store_bytes_def
        libcaf_sample_def image1_of_4_def upt_2 load_bytes_2 load_bytes_1 load_bytes_4
        dim_at_def elem_offset_def ptr_plus_def
        MPI_Put_def MPI_Win_flush_def issue_def win_store_def win_load_def caf_runtime_error_def)

text \<open>
  The window of image 2 does not hold \<open>a\<close>, blank, \<open>b\<close>, blank, which the padding rule asks
  for.
\<close>

theorem send_character_array_padding_witness:
  "window_after
     (send libcaf_sample 64 0 2
        \<lparr>base_addr = 0, desc_type = BT_CHARACTER, desc_size = 2,
         dim = [\<lparr>dim_stride = 1, lower_bound = 1, dim_ubound = 2\<rparr>]\<rparr>
        \<lparr>base_addr = 100, desc_type = BT_CHARACTER, desc_size = 1,
         dim = [\<lparr>dim_stride = 1, lower_bound = 1, dim_ubound = 2\<rparr>]\<rparr>
        1 1 False None
        (image1_of_4\<lparr>heap := (\<lambda>_. 0)(100 := 0x61, 101 := 0x62, 102 := 0x63)\<rparr>))
     2 1 0 4
   \<noteq> Some [0x61, 0x20, 0x62, 0x20]"
  using send_character_array_padding by simp

end
